theory Spec2Isabelle
  imports Complex_Main "HOL-Library.Word" "HOL-Library.Log_Nat"
begin

section \<open>The palette editor's event loop (pt\_pal\_editor/src/main.c)\<close>

text \<open>
  The file embeds \<^verbatim>\<open>main.c\<close>: the start-up routine \<^verbatim>\<open>setupVideo\<close>, the pointer
  mapping \<^verbatim>\<open>readMouseXY\<close>, the event dispatch \<^verbatim>\<open>handleInput\<close> with the quit dialog
  \<^verbatim>\<open>showAskToSaveDialog\<close>, and the frame loop of \<^verbatim>\<open>main\<close>.

  The globals of the program are the fields of one record that every routine takes and
  returns. What the platform answers (the SDL return values, the mouse position, the queued
  events, the button pressed in the message box) is an argument. The routines of
  \<^verbatim>\<open>gui.c\<close>, \<^verbatim>\<open>palette.c\<close> and \<^verbatim>\<open>config.c\<close> and the constants
  \<^verbatim>\<open>SCREEN_W\<close> and \<^verbatim>\<open>SCREEN_H\<close> are not part of \<^verbatim>\<open>main.c\<close>; they are the fields
  of a parameter record. Every call that leaves \<^verbatim>\<open>main.c\<close> and every store to one of its
  three \<^verbatim>\<open>volatile\<close> flags is appended to a trace, in program order.
\<close>

subsection \<open>Machine types\<close>

type_synonym int16 = "16 word"
type_synonym int32 = "32 word"
type_synonym uint32 = "32 word"
type_synonym uint8 = "8 word"

subsection \<open>Double precision arithmetic of \<^verbatim>\<open>setupVideo\<close>\<close>

text \<open>
  \<^verbatim>\<open>setupVideo\<close> computes the two scale multipliers in \<^verbatim>\<open>double\<close>. A finite double is
  a rational number; an IEEE-754 operation returns the exact result rounded to the nearest
  number with a 53 bit significand, ties to the even significand. The values that occur
  here are quotients of 32 bit integers and of 65536 by such a quotient, so neither overflow
  nor subnormal numbers arise and the exponent is left unbounded.
\<close>

definition pow2 :: "int \<Rightarrow> rat" where
  "pow2 k = (if 0 \<le> k then 2 ^ nat k else 1 / 2 ^ nat (- k))"

text \<open>\<open>ilog2 q\<close> is the binary exponent of \<open>q > 0\<close>: \<open>2 ^ ilog2 q \<le> q < 2 ^ (ilog2 q + 1)\<close>.\<close>

definition ilog2 :: "rat \<Rightarrow> int" where
  "ilog2 q =
     (let (a, b) = quotient_of q;
          k = int (floorlog 2 (nat a)) - int (floorlog 2 (nat b))
      in if pow2 k \<le> q then k else k - 1)"

definition round_half_even :: "rat \<Rightarrow> int" where
  "round_half_even m =
     (let f = \<lfloor>m\<rfloor>; d = m - of_int f
      in if d < 1 / 2 then f
         else if 1 / 2 < d then f + 1
         else if even f then f else f + 1)"

text \<open>The double nearest to a rational number.\<close>

definition double_of :: "rat \<Rightarrow> rat" where
  "double_of q =
     (if q = 0 then 0
      else let ulp = pow2 (ilog2 \<bar>q\<bar> - 52)
           in sgn q * of_int (round_half_even (\<bar>q\<bar> / ulp)) * ulp)"

text \<open>C's \<^verbatim>\<open>round\<close>: to the nearest integer, halfway cases away from zero.\<close>

definition c_round :: "rat \<Rightarrow> int" where
  "c_round q = (if 0 \<le> q then \<lfloor>q + 1 / 2\<rfloor> else - \<lfloor>- q + 1 / 2\<rfloor>)"

text \<open>
  The conversion \<^verbatim>\<open>(uint32_t)d\<close> of an integral double is defined only when the value
  fits; outside that range the C standard leaves the behaviour undefined, which is \<open>None\<close>.
\<close>

definition double_to_uint32 :: "int \<Rightarrow> uint32 option" where
  "double_to_uint32 r = (if 0 \<le> r \<and> r < 2 ^ 32 then Some (word_of_int r) else None)"

text \<open>
  One scale multiplier, lines 302 to 306 of \<^verbatim>\<open>main.c\<close>:
  \<^verbatim>\<open>dScaleX = w / (double)SCREEN_W;\<close>
  \<^verbatim>\<open>xScaleMul = (dScaleX == 0.0) ? 65536 : (uint32_t)round(65536.0 / dScaleX);\<close>
  A zero \<^verbatim>\<open>SCREEN_W\<close> makes the first quotient infinite (then the second quotient is a
  zero of either sign and the multiplier is 0) or, for \<open>w = 0\<close>, not a number, whose
  conversion is undefined.
\<close>

definition calcScaleMul :: "int \<Rightarrow> int32 \<Rightarrow> uint32 option" where
  "calcScaleMul screen w =
     (if screen = 0 then (if sint w = 0 then None else Some 0)
      else let dScale = double_of (of_int (sint w) / of_int screen)
           in if dScale = 0 then Some 65536
              else double_to_uint32 (c_round (double_of (65536 / dScale))))"

subsection \<open>Events, platform answers and the trace\<close>

text \<open>
  The events \<^verbatim>\<open>handleInput\<close> tells apart, with the field it reads from each:
  \<^verbatim>\<open>key.keysym.sym\<close> of a key press and \<^verbatim>\<open>button.button\<close> of a mouse button event.
\<close>

datatype sdl_event =
    SDL_QUIT
  | SDL_KEYDOWN int32
  | SDL_MOUSEBUTTONUP uint8
  | SDL_MOUSEBUTTONDOWN uint8
  | SDL_OTHEREVENT

text \<open>The value that \<^verbatim>\<open>SDL_mouse.h\<close> gives the left button.\<close>

definition SDL_BUTTON_LEFT :: uint8 where
  "SDL_BUTTON_LEFT = 1"

text \<open>
  What \<^verbatim>\<open>SDL_ShowMessageBox\<close> answers: its return value (negative on failure) and the
  id it stores in \<^verbatim>\<open>whichButtonPressed\<close>. The dialog gives "No" the id 0 and "Yes" the id 1.
\<close>

record msgbox_reply =
  mb_rc :: int
  mb_button :: int

text \<open>What the platform answers during \<^verbatim>\<open>setupVideo\<close>.\<close>

record platform =
  init_rc :: int
  window_ok :: bool
  renderer_ok :: bool
  texture_ok :: bool
  malloc_ok :: bool
  window_size :: "int32 \<times> int32"

text \<open>
  What the platform answers during one iteration of the frame loop: the position
  \<^verbatim>\<open>SDL_GetMouseState\<close> stores, and the events \<^verbatim>\<open>SDL_PollEvent\<close> returns until the queue
  is empty, each with the answer the message box would give if that event opened it.
\<close>

record tick_in =
  raw_mouse :: "int32 \<times> int32"
  polled :: "(sdl_event \<times> msgbox_reply) list"

datatype init_error =
    CouldntInitSDL | CouldntCreateWindow | CouldntCreateRenderer
  | CouldntCreateTexture | OutOfMemory

datatype call =
    SDL_Init
  | SDL_CreateWindow int int
  | SDL_CreateRenderer
  | SDL_RenderSetLogicalSize int int
  | SDL_RenderSetIntegerScale
  | SDL_SetRenderDrawBlendMode
  | SDL_SetHint
  | SDL_CreateTexture int int
  | SDL_SetTextureBlendMode
  | Malloc int
  | SDL_GetWindowSize
  | SDL_ShowSimpleMessageBox init_error
  | SDL_Quit
  | SetupGUI
  | SDL_PumpEvents
  | SDL_GetMouseState
  | SDL_PollEvent
  | SDL_ShowMessageBox
  | SavePalette int
  | KeyDownHandler int32
  | MouseButtonUpHandler
  | MouseButtonDownHandler
  | HandleSlidersHeldDown
  | HandleRainbowHeldDown
  | HandleRainbowUpDownButtons
  | SDL_UpdateTexture int
  | SDL_RenderClear
  | SDL_RenderCopy
  | SDL_RenderPresent
  | SDL_Delay int
  | FreeLoadedFile
  | FreeFrameBuffer

datatype flag = ProgramRunning | RedrawScreen | AllowSigterm

datatype action = Call call | Store flag bool

subsection \<open>Program state\<close>

text \<open>
  The globals of \<^verbatim>\<open>main.c\<close> (\<^verbatim>\<open>programRunning\<close>, \<^verbatim>\<open>redrawScreen\<close>,
  \<^verbatim>\<open>allowSigterm\<close>), the globals of the other modules that \<^verbatim>\<open>main.c\<close> reads or writes
  (\<^verbatim>\<open>configIsSaved\<close>, \<^verbatim>\<open>loadedFile\<close>, the four fields of \<^verbatim>\<open>input.mouse\<close>), the
  remaining state of those modules as one opaque value, and the trace.
  \<^verbatim>\<open>allowSigterm\<close> is the quit guard read the other way round: a quit event is handled
  while it is true, and ignored while it is false.
\<close>

record 'g app =
  programRunning :: bool
  redrawScreen :: bool
  allowSigterm :: bool
  configIsSaved :: bool
  loadedFile :: "nat option"
  mouse_x :: int16
  mouse_y :: int16
  xScaleMul :: uint32
  yScaleMul :: uint32
  gui :: 'g
  trace :: "action list"

text \<open>
  The parts of the repository that \<^verbatim>\<open>main.c\<close> includes from \<^verbatim>\<open>config.h\<close>,
  \<^verbatim>\<open>palette.h\<close> and \<^verbatim>\<open>gui.h\<close>: the two canvas constants and the routines it calls.
  A routine may read and write every global.
\<close>

record 'g externals =
  SCREEN_W :: int
  SCREEN_H :: int
  setupGUI :: "'g app \<Rightarrow> 'g app"
  keyDownHandler :: "int32 \<Rightarrow> 'g app \<Rightarrow> 'g app"
  mouseButtonUpHandler :: "'g app \<Rightarrow> 'g app"
  mouseButtonDownHandler :: "'g app \<Rightarrow> 'g app"
  handleSlidersHeldDown :: "'g app \<Rightarrow> 'g app"
  handleRainbowHeldDown :: "'g app \<Rightarrow> 'g app"
  handleRainbowUpDownButtons :: "'g app \<Rightarrow> 'g app"
  savePalette :: "int \<Rightarrow> 'g app \<Rightarrow> 'g app"

text \<open>A call of a platform function that changes no global: only the trace grows.\<close>

definition do_call :: "call \<Rightarrow> 'g app \<Rightarrow> 'g app" where
  "do_call c s = s\<lparr>trace := trace s @ [Call c]\<rparr>"

text \<open>
  A call of a routine of another module: the call is recorded and the routine runs on the
  globals. The trace is not a variable of the program, so the routine leaves it alone.
\<close>

definition extern :: "call \<Rightarrow> ('g app \<Rightarrow> 'g app) \<Rightarrow> 'g app \<Rightarrow> 'g app" where
  "extern c h s = (h s)\<lparr>trace := trace s @ [Call c]\<rparr>"

text \<open>The stores of \<^verbatim>\<open>main.c\<close> to its volatile flags.\<close>

definition set_programRunning :: "bool \<Rightarrow> 'g app \<Rightarrow> 'g app" where
  "set_programRunning b s =
     s\<lparr>programRunning := b, trace := trace s @ [Store ProgramRunning b]\<rparr>"

definition set_redrawScreen :: "bool \<Rightarrow> 'g app \<Rightarrow> 'g app" where
  "set_redrawScreen b s =
     s\<lparr>redrawScreen := b, trace := trace s @ [Store RedrawScreen b]\<rparr>"

definition set_allowSigterm :: "bool \<Rightarrow> 'g app \<Rightarrow> 'g app" where
  "set_allowSigterm b s =
     s\<lparr>allowSigterm := b, trace := trace s @ [Store AllowSigterm b]\<rparr>"

subsection \<open>\<^verbatim>\<open>readMouseXY\<close>\<close>

text \<open>
  One axis of lines 102 to 112: the negative position becomes 0, the product with the
  multiplier and the sum with \<^verbatim>\<open>1 << 15\<close> are taken in \<^verbatim>\<open>uint32_t\<close>, the shifted
  value is compared as \<^verbatim>\<open>int32_t\<close> with the canvas constant, and the result is cast to
  \<^verbatim>\<open>int16_t\<close>.
\<close>

definition scaleRaw :: "uint32 \<Rightarrow> int32 \<Rightarrow> int32" where
  "scaleRaw mul m = drop_bit 16 ((if m <s 0 then 0 else m) * mul + push_bit 15 1)"

definition mapCoord :: "int \<Rightarrow> uint32 \<Rightarrow> int32 \<Rightarrow> int16" where
  "mapCoord screen mul m =
     (let m1 = scaleRaw mul m;
          m2 = (if screen \<le> sint m1 then word_of_int (screen - 1) else m1)
      in word_of_int (sint m2))"

definition readMouseXY :: "'g externals \<Rightarrow> int32 \<times> int32 \<Rightarrow> 'g app \<Rightarrow> 'g app" where
  "readMouseXY X raw s =
     (let s1 = do_call SDL_PumpEvents s;
          s2 = do_call SDL_GetMouseState s1;
          (mx, my) = raw
      in s2\<lparr>mouse_x := mapCoord (SCREEN_W X) (xScaleMul s2) mx,
             mouse_y := mapCoord (SCREEN_H X) (yScaleMul s2) my\<rparr>)"

subsection \<open>\<^verbatim>\<open>showAskToSaveDialog\<close> and \<^verbatim>\<open>handleInput\<close>\<close>

definition showAskToSaveDialog :: "'g externals \<Rightarrow> msgbox_reply \<Rightarrow> 'g app \<Rightarrow> 'g app" where
  "showAskToSaveDialog X reply s =
     (let s1 = do_call SDL_ShowMessageBox s
      in if mb_rc reply < 0
         then set_programRunning False (set_allowSigterm True s1)
         else let s2 = (if mb_button reply = 1
                        then extern (SavePalette 0) (savePalette X 0) s1
                        else s1)
              in set_programRunning False s2)"

text \<open>
  The body of the \<^verbatim>\<open>while (SDL_PollEvent(&inputEvent))\<close> loop for one event that the
  poll returned.
\<close>

definition dispatchEvent :: "'g externals \<Rightarrow> sdl_event \<times> msgbox_reply \<Rightarrow> 'g app \<Rightarrow> 'g app" where
  "dispatchEvent X er s0 =
     (let s = do_call SDL_PollEvent s0
      in if fst er = SDL_QUIT \<and> allowSigterm s
         then (if \<not> configIsSaved s
               then showAskToSaveDialog X (snd er) (set_allowSigterm False s)
               else set_programRunning False s)
         else (case fst er of
                 SDL_KEYDOWN key \<Rightarrow> extern (KeyDownHandler key) (keyDownHandler X key) s
               | SDL_MOUSEBUTTONUP b \<Rightarrow>
                   if b = SDL_BUTTON_LEFT
                   then extern MouseButtonUpHandler (mouseButtonUpHandler X) s
                   else s
               | SDL_MOUSEBUTTONDOWN b \<Rightarrow>
                   if b = SDL_BUTTON_LEFT
                   then extern MouseButtonDownHandler (mouseButtonDownHandler X) s
                   else s
               | _ \<Rightarrow> s))"

text \<open>The loop itself; its last poll finds the queue empty.\<close>

fun pollEvents :: "'g externals \<Rightarrow> (sdl_event \<times> msgbox_reply) list \<Rightarrow> 'g app \<Rightarrow> 'g app" where
  "pollEvents X [] s = do_call SDL_PollEvent s"
| "pollEvents X (er # ers) s = pollEvents X ers (dispatchEvent X er s)"

definition handleInput :: "'g externals \<Rightarrow> (sdl_event \<times> msgbox_reply) list \<Rightarrow> 'g app \<Rightarrow> 'g app" where
  "handleInput X ers s =
     (let s1 = pollEvents X ers s;
          s2 = extern HandleSlidersHeldDown (handleSlidersHeldDown X) s1;
          s3 = extern HandleRainbowHeldDown (handleRainbowHeldDown X) s2
      in extern HandleRainbowUpDownButtons (handleRainbowUpDownButtons X) s3)"

subsection \<open>The frame loop\<close>

text \<open>Lines 76 to 82: the flag is cleared, then the canvas is uploaded and presented.\<close>

definition presentFrame :: "'g externals \<Rightarrow> 'g app \<Rightarrow> 'g app" where
  "presentFrame X s =
     (let s1 = set_redrawScreen False s;
          s2 = do_call (SDL_UpdateTexture (SCREEN_W X * 4)) s1;
          s3 = do_call SDL_RenderClear s2;
          s4 = do_call SDL_RenderCopy s3
      in do_call SDL_RenderPresent s4)"

text \<open>One iteration, lines 71 to 85.\<close>

definition loopBody :: "'g externals \<Rightarrow> tick_in \<Rightarrow> 'g app \<Rightarrow> 'g app" where
  "loopBody X t s =
     (let s1 = readMouseXY X (raw_mouse t) s;
          s2 = handleInput X (polled t) s1;
          s3 = (if redrawScreen s2 then presentFrame X s2 else s2)
      in do_call (SDL_Delay (1000 div 60 + 1)) s3)"

text \<open>
  The program may run for ever. The loop takes the platform's answers for finitely many
  iterations; when they are used up and the flag is still set, the run is unfinished.
\<close>

datatype fault = UndefinedConversion | InputExhausted

fun frameLoop :: "'g externals \<Rightarrow> tick_in list \<Rightarrow> 'g app \<Rightarrow> fault + 'g app" where
  "frameLoop X [] s = (if programRunning s then Inl InputExhausted else Inr s)"
| "frameLoop X (t # ts) s =
     (if programRunning s then frameLoop X ts (loopBody X t s) else Inr s)"

subsection \<open>\<^verbatim>\<open>setupVideo\<close> and \<^verbatim>\<open>main\<close>\<close>

text \<open>
  \<^verbatim>\<open>showErrorMsgBox\<close> formats its message and shows it; the message is named by the step
  that failed. \<^verbatim>\<open>setupVideo\<close> is taken as compiled against SDL 2.0.5 or later, where the
  call of \<^verbatim>\<open>SDL_RenderSetIntegerScale\<close> is present; the flags passed to \<^verbatim>\<open>SDL_Init\<close>
  do not matter here.
\<close>

definition showErrorMsgBox :: "init_error \<Rightarrow> 'g app \<Rightarrow> 'g app" where
  "showErrorMsgBox e s = do_call (SDL_ShowSimpleMessageBox e) s"

definition setupVideo :: "'g externals \<Rightarrow> platform \<Rightarrow> 'g app \<Rightarrow> fault + bool \<times> 'g app" where
  "setupVideo X P s =
     (let s1 = do_call SDL_Init s in
      if init_rc P \<noteq> 0 then Inr (False, showErrorMsgBox CouldntInitSDL s1)
      else
      let s2 = do_call (SDL_CreateWindow (SCREEN_W X * 2) (SCREEN_H X * 2)) s1 in
      if \<not> window_ok P then Inr (False, showErrorMsgBox CouldntCreateWindow s2)
      else
      let s3 = do_call SDL_CreateRenderer s2 in
      if \<not> renderer_ok P then Inr (False, showErrorMsgBox CouldntCreateRenderer s3)
      else
      let s4 = do_call (SDL_RenderSetLogicalSize (SCREEN_W X) (SCREEN_H X)) s3;
          s5 = do_call SDL_RenderSetIntegerScale s4;
          s6 = do_call SDL_SetRenderDrawBlendMode s5;
          s7 = do_call SDL_SetHint s6;
          s8 = do_call (SDL_CreateTexture (SCREEN_W X) (SCREEN_H X)) s7 in
      if \<not> texture_ok P then Inr (False, showErrorMsgBox CouldntCreateTexture s8)
      else
      let s9 = do_call SDL_SetTextureBlendMode s8;
          s10 = do_call (Malloc (SCREEN_W X * SCREEN_H X * 4)) s9 in
      if \<not> malloc_ok P then Inr (False, showErrorMsgBox OutOfMemory s10)
      else
      let s11 = do_call SDL_GetWindowSize s10 in
      case calcScaleMul (SCREEN_W X) (fst (window_size P)) of
        None \<Rightarrow> Inl UndefinedConversion
      | Some xm \<Rightarrow>
          (case calcScaleMul (SCREEN_H X) (snd (window_size P)) of
             None \<Rightarrow> Inl UndefinedConversion
           | Some ym \<Rightarrow> Inr (True, s11\<lparr>xScaleMul := xm, yScaleMul := ym\<rparr>)))"

text \<open>Lines 65 to 68, between the start-up and the loop.\<close>

definition enterLoop :: "'g externals \<Rightarrow> 'g app \<Rightarrow> 'g app" where
  "enterLoop X s =
     set_programRunning True (set_redrawScreen True (extern SetupGUI (setupGUI X) s))"

text \<open>Lines 88 to 90, after the loop.\<close>

definition shutdown :: "'g app \<Rightarrow> 'g app" where
  "shutdown s =
     (let s1 = (if loadedFile s \<noteq> None then do_call FreeLoadedFile s else s);
          s2 = do_call FreeFrameBuffer s1
      in do_call SDL_Quit s2)"

text \<open>
  \<^verbatim>\<open>main\<close>: the value returned is the exit code of the process. The change of directory
  that the macOS build does first touches none of the globals and is left out.
\<close>

definition main_prog ::
  "'g externals \<Rightarrow> platform \<Rightarrow> tick_in list \<Rightarrow> 'g app \<Rightarrow> fault + int \<times> 'g app" where
  "main_prog X P ts s =
     (case setupVideo X P s of
        Inl f \<Rightarrow> Inl f
      | Inr (ok, s1) \<Rightarrow>
          if \<not> ok then Inr (0, do_call SDL_Quit s1)
          else (case frameLoop X ts (enterLoop X s1) of
                  Inl f \<Rightarrow> Inl f
                | Inr s2 \<Rightarrow> Inr (0, shutdown s2)))"

text \<open>
  The globals when \<^verbatim>\<open>main\<close> starts: \<^verbatim>\<open>allowSigterm\<close> is initialised to true, the other
  globals of \<^verbatim>\<open>main.c\<close> and the pointer state are zero, nothing has happened yet. The
  saved flag, the loaded file and the state of the other modules are theirs to initialise.
\<close>

definition startup :: "bool \<Rightarrow> nat option \<Rightarrow> 'g \<Rightarrow> 'g app" where
  "startup saved file g =
     \<lparr>programRunning = False, redrawScreen = False, allowSigterm = True,
      configIsSaved = saved, loadedFile = file, mouse_x = 0, mouse_y = 0,
      xScaleMul = 0, yScaleMul = 0, gui = g, trace = []\<rparr>"

subsection \<open>What is assumed of the other modules, and what is observed in the trace\<close>

text \<open>
  \<^verbatim>\<open>programRunning\<close> and \<^verbatim>\<open>allowSigterm\<close> are globals with external linkage, so a
  routine of another module could store to them. Where a property needs that none does,
  that is a hypothesis on the parameter record.
\<close>

definition keeps_quit_flags :: "('g app \<Rightarrow> 'g app) \<Rightarrow> bool" where
  "keeps_quit_flags h =
     (\<forall>s. programRunning (h s) = programRunning s \<and> allowSigterm (h s) = allowSigterm s)"

definition quit_flags_private :: "'g externals \<Rightarrow> bool" where
  "quit_flags_private X =
     (keeps_quit_flags (setupGUI X) \<and>
      (\<forall>k. keeps_quit_flags (keyDownHandler X k)) \<and>
      keeps_quit_flags (mouseButtonUpHandler X) \<and>
      keeps_quit_flags (mouseButtonDownHandler X) \<and>
      keeps_quit_flags (handleSlidersHeldDown X) \<and>
      keeps_quit_flags (handleRainbowHeldDown X) \<and>
      keeps_quit_flags (handleRainbowUpDownButtons X) \<and>
      (\<forall>n. keeps_quit_flags (savePalette X n)))"

text \<open>
  The other modules set \<^verbatim>\<open>redrawScreen\<close> when they change the canvas; only the frame
  loop clears it.
\<close>

definition keeps_redraw :: "('g app \<Rightarrow> 'g app) \<Rightarrow> bool" where
  "keeps_redraw h = (\<forall>s. redrawScreen s \<longrightarrow> redrawScreen (h s))"

definition redraw_never_cleared :: "'g externals \<Rightarrow> bool" where
  "redraw_never_cleared X =
     ((\<forall>k. keeps_redraw (keyDownHandler X k)) \<and>
      keeps_redraw (mouseButtonUpHandler X) \<and>
      keeps_redraw (mouseButtonDownHandler X) \<and>
      keeps_redraw (handleSlidersHeldDown X) \<and>
      keeps_redraw (handleRainbowHeldDown X) \<and>
      keeps_redraw (handleRainbowUpDownButtons X) \<and>
      (\<forall>n. keeps_redraw (savePalette X n)))"

text \<open>The four calls that upload and present the canvas, and the sleep.\<close>

fun is_render :: "action \<Rightarrow> bool" where
  "is_render (Call (SDL_UpdateTexture pitch)) = True"
| "is_render (Call SDL_RenderClear) = True"
| "is_render (Call SDL_RenderCopy) = True"
| "is_render (Call SDL_RenderPresent) = True"
| "is_render a = False"

fun is_delay :: "action \<Rightarrow> bool" where
  "is_delay (Call (SDL_Delay ms)) = True"
| "is_delay a = False"

text \<open>
  The quit guard can only be set while the program is stopping: whenever
  \<^verbatim>\<open>allowSigterm\<close> is false, \<^verbatim>\<open>programRunning\<close> is false too.
\<close>

definition guard_inv :: "'g app \<Rightarrow> bool" where
  "guard_inv s = (allowSigterm s \<or> \<not> programRunning s)"

subsection \<open>A concrete configuration\<close>

text \<open>
  The scenario of the specification: a canvas of 128 by 64 pixels in a window of 256 by 128.
  The routines of the other modules are stand-ins: a key press edits a colour (the canvas
  changes, the palette is unsaved), saving marks the palette saved, the others do nothing.
\<close>

definition scenario :: "unit externals" where
  "scenario =
     \<lparr>SCREEN_W = 128, SCREEN_H = 64,
      setupGUI = (\<lambda>s. s),
      keyDownHandler = (\<lambda>k s. s\<lparr>redrawScreen := True, configIsSaved := False\<rparr>),
      mouseButtonUpHandler = (\<lambda>s. s),
      mouseButtonDownHandler = (\<lambda>s. s),
      handleSlidersHeldDown = (\<lambda>s. s),
      handleRainbowHeldDown = (\<lambda>s. s),
      handleRainbowUpDownButtons = (\<lambda>s. s),
      savePalette = (\<lambda>n s. s\<lparr>configIsSaved := True\<rparr>)\<rparr>"

definition scenario_platform :: platform where
  "scenario_platform =
     \<lparr>init_rc = 0, window_ok = True, renderer_ok = True, texture_ok = True,
      malloc_ok = True, window_size = (256, 128)\<rparr>"

text \<open>The globals of the scenario after a successful start-up, the palette unsaved.\<close>

definition scenario_state :: "unit app" where
  "scenario_state =
     \<lparr>programRunning = True, redrawScreen = False, allowSigterm = True,
      configIsSaved = False, loadedFile = None, mouse_x = 0, mouse_y = 0,
      xScaleMul = 32768, yScaleMul = 32768, gui = (), trace = []\<rparr>"

text \<open>The two answers of the message box, and the answer of a platform that cannot show it.\<close>

definition answer_no :: msgbox_reply where
  "answer_no = \<lparr>mb_rc = 0, mb_button = 0\<rparr>"

definition answer_yes :: msgbox_reply where
  "answer_yes = \<lparr>mb_rc = 0, mb_button = 1\<rparr>"

definition answer_failed :: msgbox_reply where
  "answer_failed = \<lparr>mb_rc = - 1, mb_button = 0\<rparr>"

text \<open>An iteration in which the user closes the window, and one in which nothing happens.\<close>

definition quit_tick :: "msgbox_reply \<Rightarrow> tick_in" where
  "quit_tick reply = \<lparr>raw_mouse = (10, 20), polled = [(SDL_QUIT, reply)]\<rparr>"

definition idle_tick :: tick_in where
  "idle_tick = \<lparr>raw_mouse = (10, 20), polled = []\<rparr>"

section \<open>The coordinate mapper\<close>

subsection \<open>Conversions between words and integers\<close>

lemma sint_of_int_32:
  assumes "- 2147483648 \<le> k" "k < 2147483648"
  shows "sint (word_of_int k :: 32 word) = k"
proof -
  have "signed_take_bit 31 k = k"
    by (rule signed_take_bit_int_eq_self) (use assms in simp_all)
  then show ?thesis by (simp add: sint_sbintrunc')
qed

lemma sint_of_int_16:
  assumes "- 32768 \<le> k" "k < 32768"
  shows "sint (word_of_int k :: 16 word) = k"
proof -
  have "signed_take_bit 15 k = k"
    by (rule signed_take_bit_int_eq_self) (use assms in simp_all)
  then show ?thesis by (simp add: sint_sbintrunc')
qed

lemma uint_eq_sint:
  assumes "0 \<le> sint (m :: 32 word)"
  shows "uint m = sint m"
proof -
  have "sint m < 2 ^ 32" using sint_lt [of m] by simp
  then have "take_bit 32 (sint m) = sint m"
    using assms by (intro take_bit_int_eq_self) simp_all
  then show ?thesis by (simp add: uint_sint)
qed

subsection \<open>The scaled value fits 16 bits\<close>

lemma uint_scaleRaw: "uint (scaleRaw mul m) < 65536"
proof -
  have "uint (drop_bit 16 (x :: 32 word)) < 65536" for x
  proof -
    have "uint x < 2 ^ 32" using uint_bounded [of x] by simp
    then have "uint x div 65536 < 65536" by simp
    then show ?thesis by (simp add: drop_bit_eq_div uint_div_distrib)
  qed
  then show ?thesis by (simp add: scaleRaw_def)
qed

lemma sint_scaleRaw: "sint (scaleRaw mul m) = uint (scaleRaw mul m)"
proof -
  have "signed_take_bit 31 (uint (scaleRaw mul m)) = uint (scaleRaw mul m)"
  proof (rule signed_take_bit_int_eq_self)
    have "- (2 ^ 31) \<le> (0 :: int)" by simp
    also have "0 \<le> uint (scaleRaw mul m)" by (rule uint_ge_0)
    finally show "- (2 ^ 31) \<le> uint (scaleRaw mul m)" .
    show "uint (scaleRaw mul m) < 2 ^ 31"
      using uint_scaleRaw [of mul m] by simp
  qed
  then show ?thesis by (simp add: sint_uint)
qed

lemma sint_mapCoord:
  assumes "0 < screen" "screen \<le> 32768"
  shows "0 \<le> sint (mapCoord screen mul m) \<and> sint (mapCoord screen mul m) \<le> screen - 1"
proof -
  let ?m1 = "scaleRaw mul m"
  let ?m2 = "if screen \<le> sint ?m1 then word_of_int (screen - 1) else ?m1"
  have r: "0 \<le> sint ?m1" "sint ?m1 < 65536"
    using uint_scaleRaw [of mul m] by (simp_all add: sint_scaleRaw)
  have c: "sint (word_of_int (screen - 1) :: 32 word) = screen - 1"
    by (rule sint_of_int_32) (use assms in simp_all)
  have b: "0 \<le> sint ?m2 \<and> sint ?m2 \<le> screen - 1"
  proof (cases "screen \<le> sint ?m1")
    case True
    then have "sint ?m2 = screen - 1" by (simp only: if_True c)
    with assms show ?thesis by simp
  next
    case False
    then have "sint ?m2 = sint ?m1" by (simp only: if_False)
    with False r show ?thesis by simp
  qed
  then have "sint (word_of_int (sint ?m2) :: 16 word) = sint ?m2"
    using assms by (intro sint_of_int_16) simp_all
  with b show ?thesis by (simp add: mapCoord_def Let_def)
qed

lemma scaleRaw_negative: "m <s 0 \<Longrightarrow> scaleRaw mul m = scaleRaw mul 0"
  by (simp add: scaleRaw_def)

lemma mapCoord_negative: "m <s 0 \<Longrightarrow> mapCoord screen mul m = mapCoord screen mul 0"
  by (simp add: mapCoord_def scaleRaw_negative)

lemma mapCoord_zero: "0 < screen \<Longrightarrow> mapCoord screen mul 0 = 0"
  by (simp add: mapCoord_def scaleRaw_def)

lemma mouse_readMouseXY:
  "mouse_x (readMouseXY X (mx, my) s) = mapCoord (SCREEN_W X) (xScaleMul s) mx"
  "mouse_y (readMouseXY X (mx, my) s) = mapCoord (SCREEN_H X) (yScaleMul s) my"
  by (simp_all add: readMouseXY_def do_call_def)

lemma scenario_consts: "SCREEN_W scenario = 128" "SCREEN_H scenario = 64"
  by (simp_all add: scenario_def)

subsection \<open>Every mapped position lies on the canvas\<close>

text \<open>
  Claim C1. Whatever position the platform reports, negative values included, and whatever
  the multipliers are, the position that \<^verbatim>\<open>readMouseXY\<close> stores lies in
  \<open>[0, SCREEN_W - 1]\<close> by \<open>[0, SCREEN_H - 1]\<close>, and a negative raw coordinate gives
  the same result as the raw coordinate 0: it is replaced by 0 before the scaling. The canvas
  constants are positive and at most 32768, so that the largest coordinate fits the
  \<^verbatim>\<open>int16_t\<close> fields of the pointer state.
\<close>

theorem readMouseXY_in_range:
  assumes "0 < SCREEN_W X" "SCREEN_W X \<le> 32768" "0 < SCREEN_H X" "SCREEN_H X \<le> 32768"
  shows "readMouseXY X (mx, my) s =
           readMouseXY X (if mx <s 0 then 0 else mx, if my <s 0 then 0 else my) s \<and>
         0 \<le> sint (mouse_x (readMouseXY X (mx, my) s)) \<and>
         sint (mouse_x (readMouseXY X (mx, my) s)) \<le> SCREEN_W X - 1 \<and>
         0 \<le> sint (mouse_y (readMouseXY X (mx, my) s)) \<and>
         sint (mouse_y (readMouseXY X (mx, my) s)) \<le> SCREEN_H X - 1"
proof -
  have x: "0 \<le> sint (mouse_x (readMouseXY X (mx, my) s)) \<and>
           sint (mouse_x (readMouseXY X (mx, my) s)) \<le> SCREEN_W X - 1"
    using sint_mapCoord [OF assms(1,2)] by (simp only: mouse_readMouseXY)
  have y: "0 \<le> sint (mouse_y (readMouseXY X (mx, my) s)) \<and>
           sint (mouse_y (readMouseXY X (mx, my) s)) \<le> SCREEN_H X - 1"
    using sint_mapCoord [OF assms(3,4)] by (simp only: mouse_readMouseXY)
  have c: "readMouseXY X (mx, my) s =
           readMouseXY X (if mx <s 0 then 0 else mx, if my <s 0 then 0 else my) s"
    by (simp add: readMouseXY_def do_call_def mapCoord_negative)
  from x y c show ?thesis by blast
qed

theorem readMouseXY_in_range_witness:
  "readMouseXY scenario (- 7, 300) scenario_state =
     readMouseXY scenario (0, 300) scenario_state \<and>
   0 \<le> sint (mouse_x (readMouseXY scenario (- 7, 300) scenario_state)) \<and>
   sint (mouse_x (readMouseXY scenario (- 7, 300) scenario_state)) \<le> 127 \<and>
   0 \<le> sint (mouse_y (readMouseXY scenario (- 7, 300) scenario_state)) \<and>
   sint (mouse_y (readMouseXY scenario (- 7, 300) scenario_state)) \<le> 63"
proof -
  have h: "0 < SCREEN_W scenario" "SCREEN_W scenario \<le> 32768"
          "0 < SCREEN_H scenario" "SCREEN_H scenario \<le> 32768"
    by (simp_all add: scenario_consts)
  have n: "(- 7 :: int32) <s 0" "\<not> (300 :: int32) <s 0"
    by (simp_all add: word_sless_alt)
  from n readMouseXY_in_range [OF h, of "- 7" 300 scenario_state]
  show ?thesis by (auto simp: scenario_consts)
qed

subsection \<open>The rounding returns a nearest double\<close>

text \<open>
  \<open>double_of q\<close> has a significand of 53 bits at the binary exponent of \<open>q\<close> (or is the
  next power of two), and differs from \<open>q\<close> by at most half a unit in the last place.
\<close>

lemma pow2_pos: "0 < pow2 k"
  by (simp add: pow2_def)

lemma pow2_diff: "pow2 (int m - int n) = 2 ^ m / 2 ^ n"
proof (cases "n \<le> m")
  case True
  then have "nat (int m - int n) = m - n" by simp
  with True show ?thesis by (simp add: pow2_def power_diff)
next
  case False
  then have "nat (- (int m - int n)) = n - m" by simp
  moreover have "(2 :: rat) ^ m / 2 ^ n = 1 / 2 ^ (n - m)"
    using False by (simp add: power_diff field_simps)
  ultimately show ?thesis using False by (simp add: pow2_def)
qed

lemma pow2_Suc: "pow2 (k + 1) = 2 * pow2 k"
proof (cases "0 \<le> k")
  case True
  then have "nat (k + 1) = Suc (nat k)" by simp
  with True show ?thesis by (simp add: pow2_def)
next
  case False
  then have "nat (- k) = Suc (nat (- (k + 1)))" by simp
  with False show ?thesis by (simp add: pow2_def)
qed

lemma ilog2_bounds:
  assumes "0 < q"
  shows "pow2 (ilog2 q) \<le> q \<and> q < pow2 (ilog2 q + 1)"
proof -
  obtain a b where ab: "quotient_of q = (a, b)" by (cases "quotient_of q")
  then have b: "0 < b" by (rule quotient_of_denom_pos)
  have q: "q = of_int a / of_int b" using ab by (rule quotient_of_div)
  with assms b have a: "0 < a" by (simp add: zero_less_divide_iff)
  let ?la = "floorlog 2 (nat a)" and ?lb = "floorlog 2 (nat b)"
  let ?k = "int ?la - int ?lb"
  from a have la: "2 ^ (?la - 1) \<le> nat a" "nat a < 2 ^ ?la"
    using floorlog_bounds [of "nat a" 2] by simp_all
  from b have lb: "2 ^ (?lb - 1) \<le> nat b" "nat b < 2 ^ ?lb"
    using floorlog_bounds [of "nat b" 2] by simp_all
  have "?la \<noteq> 0" using a by (simp add: floorlog_eq_zero_iff)
  then have la0: "0 < ?la" by simp
  have "?lb \<noteq> 0" using b by (simp add: floorlog_eq_zero_iff)
  then have lb0: "0 < ?lb" by simp
  have ra: "(2 :: rat) ^ (?la - 1) \<le> of_int a" "(of_int a :: rat) < 2 ^ ?la"
  proof -
    have "(of_nat (2 ^ (?la - 1)) :: rat) \<le> of_nat (nat a)" using la(1) by (simp only: of_nat_le_iff)
    then show "(2 :: rat) ^ (?la - 1) \<le> of_int a" using a by simp
    have "(of_nat (nat a) :: rat) < of_nat (2 ^ ?la)" using la(2) by (simp only: of_nat_less_iff)
    then show "(of_int a :: rat) < 2 ^ ?la" using a by simp
  qed
  have rb: "(2 :: rat) ^ (?lb - 1) \<le> of_int b" "(of_int b :: rat) < 2 ^ ?lb"
  proof -
    have "(of_nat (2 ^ (?lb - 1)) :: rat) \<le> of_nat (nat b)" using lb(1) by (simp only: of_nat_le_iff)
    then show "(2 :: rat) ^ (?lb - 1) \<le> of_int b" using b by simp
    have "(of_nat (nat b) :: rat) < of_nat (2 ^ ?lb)" using lb(2) by (simp only: of_nat_less_iff)
    then show "(of_int b :: rat) < 2 ^ ?lb" using b by simp
  qed
  have up: "q < pow2 (?k + 1)"
  proof -
    have "q < 2 ^ ?la / of_int b" using ra(2) b by (simp add: q divide_strict_right_mono)
    also have "\<dots> \<le> 2 ^ ?la / 2 ^ (?lb - 1)"
      using rb(1) by (intro divide_left_mono) (simp_all add: b)
    also have "\<dots> = pow2 (int ?la - int (?lb - 1))" by (simp only: pow2_diff)
    also have "int ?la - int (?lb - 1) = ?k + 1" using lb0 by simp
    finally show ?thesis .
  qed
  have lo: "pow2 (?k - 1) \<le> q"
  proof -
    have "?k - 1 = int (?la - 1) - int ?lb" using la0 by simp
    then have "pow2 (?k - 1) = pow2 (int (?la - 1) - int ?lb)" by (simp only:)
    also have "\<dots> = 2 ^ (?la - 1) / 2 ^ ?lb" by (simp only: pow2_diff)
    also have "\<dots> \<le> of_int a / 2 ^ ?lb" using ra(1) by (simp add: divide_right_mono)
    also have "\<dots> \<le> of_int a / of_int b"
      using rb(2) a b by (intro divide_left_mono) simp_all
    finally show ?thesis by (simp add: q)
  qed
  show ?thesis
  proof (cases "pow2 ?k \<le> q")
    case True
    then have "ilog2 q = ?k" by (simp add: ilog2_def ab)
    with True up show ?thesis by simp
  next
    case False
    then have "ilog2 q = ?k - 1" by (simp add: ilog2_def ab)
    with False lo show ?thesis by simp
  qed
qed


lemma pow2_minus_52: "pow2 (k - 52) = pow2 k / 4503599627370496"
proof -
  have k: "k = int (nat k) - int (nat (- k))" by simp
  have "k - 52 = int (nat k) - int (nat (- k) + 52)" by simp
  then have "pow2 (k - 52) = 2 ^ nat k / 2 ^ (nat (- k) + 52)" by (simp only: pow2_diff)
  also have "\<dots> = 2 ^ nat k / 2 ^ nat (- k) / 2 ^ 52" by (simp add: power_add)
  also have "2 ^ nat k / 2 ^ nat (- k) = pow2 (int (nat k) - int (nat (- k)))"
    by (simp only: pow2_diff)
  also have "int (nat k) - int (nat (- k)) = k" by simp
  finally show ?thesis by simp
qed

lemma pow2_52: "pow2 52 = 4503599627370496"
  by (simp add: pow2_def)

lemma round_half_even_near: "\<bar>of_int (round_half_even m) - m\<bar> \<le> 1 / 2"
proof -
  have "of_int \<lfloor>m\<rfloor> \<le> m" "m < of_int \<lfloor>m\<rfloor> + 1" by linarith+
  then show ?thesis by (auto simp: round_half_even_def Let_def abs_le_iff)
qed

lemma round_half_even_mono:
  assumes "of_int n \<le> m"
  shows "n \<le> round_half_even m"
proof -
  have "n \<le> \<lfloor>m\<rfloor>" using assms by (simp add: le_floor_iff)
  then show ?thesis by (auto simp: round_half_even_def Let_def)
qed

lemma round_half_even_le:
  assumes "m \<le> of_int n"
  shows "round_half_even m \<le> n"
proof (cases "m = of_int n")
  case True
  then show ?thesis by (simp add: round_half_even_def)
next
  case False
  with assms have "m < of_int n" by simp
  then have "\<lfloor>m\<rfloor> < n" by (simp add: floor_less_iff)
  then show ?thesis by (auto simp: round_half_even_def Let_def)
qed

lemma significand_range:
  assumes "q \<noteq> 0"
  shows "4503599627370496 \<le> \<bar>q\<bar> / pow2 (ilog2 \<bar>q\<bar> - 52) \<and>
         \<bar>q\<bar> / pow2 (ilog2 \<bar>q\<bar> - 52) < 9007199254740992"
proof -
  let ?e = "ilog2 \<bar>q\<bar>" and ?u = "pow2 (ilog2 \<bar>q\<bar> - 52)"
  have u: "0 < ?u" by (rule pow2_pos)
  have b: "pow2 ?e \<le> \<bar>q\<bar>" "\<bar>q\<bar> < pow2 (?e + 1)"
    using ilog2_bounds [of "\<bar>q\<bar>"] assms by simp_all
  have e: "pow2 ?e = ?u * 4503599627370496"
    by (simp add: pow2_minus_52)
  have e1: "pow2 (?e + 1) = ?u * 9007199254740992"
    using e by (simp add: pow2_Suc)
  from b(1) u have "4503599627370496 \<le> \<bar>q\<bar> / ?u"
    by (simp add: e pos_le_divide_eq mult.commute)
  moreover from b(2) u have "\<bar>q\<bar> / ?u < 9007199254740992"
    by (simp add: e1 pos_divide_less_eq mult.commute)
  ultimately show ?thesis by simp
qed

lemma double_of_nearest:
  assumes "q \<noteq> 0"
  shows "\<bar>double_of q - q\<bar> \<le> pow2 (ilog2 \<bar>q\<bar> - 52) / 2"
proof -
  let ?u = "pow2 (ilog2 \<bar>q\<bar> - 52)"
  let ?n = "round_half_even (\<bar>q\<bar> / ?u)"
  have u: "0 < ?u" by (rule pow2_pos)
  have "double_of q = sgn q * (of_int ?n * ?u)"
    using assms by (simp add: double_of_def Let_def mult.assoc)
  moreover have "q = sgn q * \<bar>q\<bar>" by (simp add: sgn_mult_abs)
  ultimately have "double_of q - q = sgn q * (of_int ?n * ?u - \<bar>q\<bar>)"
    by (simp add: right_diff_distrib)
  then have "\<bar>double_of q - q\<bar> = \<bar>sgn q\<bar> * \<bar>of_int ?n * ?u - \<bar>q\<bar>\<bar>"
    by (simp only: abs_mult)
  also have "\<dots> = \<bar>of_int ?n * ?u - \<bar>q\<bar>\<bar>"
    using assms by (simp add: abs_sgn_eq)
  also have "of_int ?n * ?u - \<bar>q\<bar> = (of_int ?n - \<bar>q\<bar> / ?u) * ?u"
    using u by (simp add: algebra_simps)
  also have "\<bar>\<dots>\<bar> = \<bar>of_int ?n - \<bar>q\<bar> / ?u\<bar> * ?u"
    using u by (simp add: abs_mult)
  also have "\<dots> \<le> 1 / 2 * ?u"
    using u round_half_even_near [of "\<bar>q\<bar> / ?u"] by (intro mult_right_mono) simp_all
  finally show ?thesis by simp
qed

lemma double_of_significand:
  assumes "q \<noteq> 0"
  shows "\<exists>n. double_of q = sgn q * of_int n * pow2 (ilog2 \<bar>q\<bar> - 52) \<and>
             4503599627370496 \<le> n \<and> n \<le> 9007199254740992"
proof -
  let ?m = "\<bar>q\<bar> / pow2 (ilog2 \<bar>q\<bar> - 52)"
  have r: "of_int 4503599627370496 \<le> ?m" "?m \<le> of_int 9007199254740992"
    using significand_range [OF assms] by simp_all
  have "4503599627370496 \<le> round_half_even ?m" using r(1) by (rule round_half_even_mono)
  moreover have "round_half_even ?m \<le> 9007199254740992" using r(2) by (rule round_half_even_le)
  ultimately show ?thesis using assms by (auto simp: double_of_def Let_def)
qed

subsection \<open>Double precision values that are exact\<close>

lemma floorlog_2_1: "floorlog 2 1 = 1" "floorlog 2 (Suc 0) = 1"
  by (simp_all add: compute_floorlog)

lemma pow2_m52: "pow2 (- 52) = 1 / 4503599627370496"
  by (simp add: pow2_def)

lemma round_half_even_of_int: "round_half_even (of_int n) = n"
  by (simp add: round_half_even_def)

lemma double_of_1: "double_of 1 = 1"
proof -
  have "ilog2 1 = 0" by (simp add: ilog2_def pow2_def floorlog_2_1)
  moreover have "round_half_even 4503599627370496 = 4503599627370496"
    using round_half_even_of_int [of 4503599627370496] by simp
  ultimately show ?thesis by (simp add: double_of_def pow2_m52)
qed

lemma floorlog_2_2: "floorlog 2 2 = 2"
  by (simp add: compute_floorlog)

lemma floorlog_2_65536: "floorlog 2 65536 = 17"
  by (simp add: compute_floorlog)

lemma floorlog_2_32768: "floorlog 2 32768 = 16"
  by (simp add: compute_floorlog)

lemma round_half_even_2_52: "round_half_even 4503599627370496 = 4503599627370496"
  using round_half_even_of_int [of 4503599627370496] by simp

lemma double_of_2: "double_of 2 = 2"
proof -
  have a: "ilog2 2 = 1" by (simp add: ilog2_def pow2_def floorlog_2_1 floorlog_2_2)
  have b: "pow2 (- 51) = 1 / 2251799813685248" by (simp add: pow2_def)
  show ?thesis by (simp add: double_of_def a b round_half_even_2_52)
qed

lemma double_of_65536: "double_of 65536 = 65536"
proof -
  have a: "ilog2 65536 = 16" by (simp add: ilog2_def pow2_def floorlog_2_1 floorlog_2_65536)
  have b: "pow2 (- 36) = 1 / 68719476736" by (simp add: pow2_def)
  show ?thesis by (simp add: double_of_def a b round_half_even_2_52)
qed

lemma double_of_32768: "double_of 32768 = 32768"
proof -
  have a: "ilog2 32768 = 15" by (simp add: ilog2_def pow2_def floorlog_2_1 floorlog_2_32768)
  have b: "pow2 (- 37) = 1 / 137438953472" by (simp add: pow2_def)
  show ?thesis by (simp add: double_of_def a b round_half_even_2_52)
qed

lemma c_round_of_int: "c_round (of_int n) = n"
proof -
  have h: "\<lfloor>(1 :: rat) / 2\<rfloor> = 0" by (simp add: floor_eq_iff)
  have "\<lfloor>(of_int k :: rat) + 1 / 2\<rfloor> = k" for k
    using floor_add_int [of "(1 :: rat) / 2" k] h by (simp add: add.commute)
  from this [of n] this [of "- n"] show ?thesis by (simp add: c_round_def)
qed

lemma calcScaleMul_unit:
  assumes "sint w = screen" "screen \<noteq> 0"
  shows "calcScaleMul screen w = Some 65536"
proof -
  have "(of_int (sint w) :: rat) / of_int screen = 1" using assms by simp
  moreover have "c_round 65536 = 65536" using c_round_of_int [of 65536] by simp
  ultimately show ?thesis
    using assms by (simp add: calcScaleMul_def double_of_1 double_of_65536 double_to_uint32_def)
qed

lemma calcScaleMul_double: "calcScaleMul 128 256 = Some 32768"
proof -
  have "c_round 32768 = 32768" using c_round_of_int [of 32768] by simp
  then show ?thesis
    by (simp add: calcScaleMul_def double_of_2 double_of_32768 double_to_uint32_def)
qed


subsection \<open>The multiplier 65536 is the identity, 32768 halves\<close>

lemma scaleRaw_unit:
  assumes "0 \<le> sint m" "sint m < 65536"
  shows "scaleRaw 65536 m = m"
proof -
  have nn: "\<not> m <s 0" using assms by (simp add: word_sless_alt)
  have u: "uint m < 65536" using assms by (simp add: uint_eq_sint)
  have "uint (m * 65536 + 32768) = uint m * 65536 + 32768"
  proof -
    have "uint (m * 65536 + 32768) = (uint m * 65536 + 32768) mod 2 ^ 32"
      by (simp add: uint_word_ariths mod_simps)
    also have "\<dots> = uint m * 65536 + 32768"
      using u uint_ge_0 [of m] by (intro mod_pos_pos_trivial) simp_all
    finally show ?thesis .
  qed
  then have "uint (drop_bit 16 (m * 65536 + 32768)) = uint m"
    by (simp add: drop_bit_eq_div uint_div_distrib)
  then have "drop_bit 16 (m * 65536 + 32768) = m"
    by (simp only: word_uint_eq_iff)
  with nn show ?thesis by (simp add: scaleRaw_def)
qed

lemma mapCoord_unit:
  assumes "0 < screen" "screen \<le> 32768" "0 \<le> sint m" "sint m < screen"
  shows "sint (mapCoord screen 65536 m) = sint m"
proof -
  have "scaleRaw 65536 m = m" using assms by (intro scaleRaw_unit) simp_all
  moreover have "sint (word_of_int (sint m) :: 16 word) = sint m"
    using assms by (intro sint_of_int_16) simp_all
  ultimately show ?thesis using assms by (simp add: mapCoord_def)
qed

lemma scaleRaw_255: "scaleRaw 32768 255 = 128"
  by (simp add: scaleRaw_def word_sless_alt)

lemma mapCoord_255: "mapCoord 128 32768 255 = 127"
  by (simp add: mapCoord_def scaleRaw_255)

lemma setupVideo_success:
  assumes "init_rc P = 0" "window_ok P" "renderer_ok P" "texture_ok P" "malloc_ok P"
    and "calcScaleMul (SCREEN_W X) (fst (window_size P)) = Some xm"
    and "calcScaleMul (SCREEN_H X) (snd (window_size P)) = Some ym"
  shows "\<exists>s'. setupVideo X P s = Inr (True, s') \<and> xScaleMul s' = xm \<and> yScaleMul s' = ym"
  unfolding setupVideo_def Let_def using assms by simp


text \<open>
  Claim C2, as stated. With a canvas 128 wide in a window 256 wide the multiplier is 32768,
  but the scaled value \<^verbatim>\<open>((255 * 32768) + 32768) >> 16\<close> of the raw coordinate 255 is
  not 127.
\<close>

theorem scale_2x_counterexample:
  "\<not> (calcScaleMul 128 256 = Some 32768 \<and> scaleRaw 32768 255 = 127 \<and>
      mapCoord 128 32768 255 = 127)"
  by (simp add: scaleRaw_def word_sless_alt)


text \<open>
  Claim C2, amended. In the scenario \<^verbatim>\<open>setupVideo\<close> stores the multiplier 32768 for both
  axes; the scaled value of the raw coordinate 255 is 128, one past the last column, and the
  comparison with \<^verbatim>\<open>SCREEN_W\<close> brings it back to 127: the last physical column maps to
  the last logical column.
\<close>

theorem scale_2x_last_column:
  "calcScaleMul 128 256 = Some 32768 \<and> scaleRaw 32768 255 = 128 \<and>
   mapCoord 128 32768 255 = 127 \<and>
   map_sum id (\<lambda>(ok, s'). (ok, xScaleMul s', yScaleMul s'))
     (setupVideo scenario scenario_platform s) = Inr (True, 32768, 32768) \<and>
   mouse_x (readMouseXY scenario (255, 0) scenario_state) = 127"
proof -
  have y: "calcScaleMul 64 128 = Some 32768"
    using calcScaleMul_double by (simp add: calcScaleMul_def)
  have "\<exists>s'. setupVideo scenario scenario_platform s = Inr (True, s') \<and>
          xScaleMul s' = 32768 \<and> yScaleMul s' = 32768"
    by (rule setupVideo_success)
       (simp_all add: scenario_def scenario_platform_def calcScaleMul_double y)
  then have "map_sum id (\<lambda>(ok, s'). (ok, xScaleMul s', yScaleMul s'))
     (setupVideo scenario scenario_platform s) = Inr (True, 32768, 32768)"
    by auto
  moreover have "mouse_x (readMouseXY scenario (255, 0) scenario_state) = 127"
    by (simp add: mouse_readMouseXY scenario_def scenario_state_def mapCoord_255)
  ultimately show ?thesis
    by (simp add: calcScaleMul_double scaleRaw_255 mapCoord_255)
qed


text \<open>
  Claim C5. When the window is as wide as the canvas, the multiplier is 65536, and every
  raw coordinate on the canvas is mapped to itself, by the scaling alone and by the whole
  mapping with its comparison and its cast.
\<close>

theorem unit_scale_identity:
  assumes "0 < screen" "screen \<le> 32768" "sint w = screen" "0 \<le> sint m" "sint m < screen"
  shows "calcScaleMul screen w = Some 65536 \<and> scaleRaw 65536 m = m \<and>
         sint (mapCoord screen 65536 m) = sint m"
proof -
  have "calcScaleMul screen w = Some 65536"
    using assms(1,3) by (intro calcScaleMul_unit) simp_all
  moreover have "scaleRaw 65536 m = m"
    using assms by (intro scaleRaw_unit) simp_all
  moreover have "sint (mapCoord screen 65536 m) = sint m"
    using assms by (intro mapCoord_unit) simp_all
  ultimately show ?thesis by simp
qed

theorem unit_scale_identity_witness:
  "calcScaleMul 128 128 = Some 65536 \<and> scaleRaw 65536 100 = 100 \<and>
   sint (mapCoord 128 65536 100) = 100"
  using unit_scale_identity [of 128 128 100] by simp


text \<open>
  The bound on the canvas constant in C1 and C5 is the range of \<^verbatim>\<open>int16_t\<close>: on a canvas
  wider than 32768 the cast at line 111 would turn the last columns into negative numbers.
\<close>

lemma mapCoord_wide_canvas: "sint (mapCoord 40000 65536 39999) = - 25537"
  by (simp add: mapCoord_def scaleRaw_def word_sless_alt)

section \<open>The quit negotiation\<close>

lemmas step_defs =
  do_call_def extern_def set_programRunning_def set_redrawScreen_def set_allowSigterm_def

lemma scenario_state_flags:
  "programRunning scenario_state" "allowSigterm scenario_state"
  "\<not> configIsSaved scenario_state" "trace scenario_state = []"
  by (simp_all add: scenario_state_def)

subsection \<open>A quit event with unsaved colours\<close>

text \<open>
  Claim C3. A quit event that arrives while \<^verbatim>\<open>allowSigterm\<close> is true (the guard is not
  set) and the palette is unsaved makes \<^verbatim>\<open>handleInput\<close> clear \<^verbatim>\<open>allowSigterm\<close>
  first and then show the message box, once. When the box answers with the id 1 ("Yes"),
  \<^verbatim>\<open>savePalette(0)\<close> runs on the globals, with \<^verbatim>\<open>allowSigterm\<close> false and
  \<^verbatim>\<open>programRunning\<close> as it was, and after it \<^verbatim>\<open>programRunning\<close> is cleared; with
  any other id ("No") \<^verbatim>\<open>programRunning\<close> is cleared and \<^verbatim>\<open>savePalette\<close> does not run.
  The first conjunct is the whole state after the dispatch, the second its trace. When the
  message box was shown and the save routine leaves the two flags alone,
  \<^verbatim>\<open>allowSigterm\<close> is false afterwards and a second quit event in the queue is polled and
  ignored: no second message box. In general a quit event is ignored while
  \<^verbatim>\<open>allowSigterm\<close> is false.
\<close>

theorem quit_unsaved_dialog:
  assumes "allowSigterm s" "\<not> configIsSaved s"
  shows "dispatchEvent X (SDL_QUIT, reply) s =
           (let s1 = s\<lparr>allowSigterm := False,
                        trace := trace s @ [Call SDL_PollEvent, Store AllowSigterm False,
                                            Call SDL_ShowMessageBox]\<rparr>
            in if mb_rc reply < 0
               then s1\<lparr>allowSigterm := True, programRunning := False,
                        trace := trace s1 @ [Store AllowSigterm True,
                                             Store ProgramRunning False]\<rparr>
               else if mb_button reply = 1
               then (savePalette X 0 s1)\<lparr>programRunning := False,
                        trace := trace s1 @ [Call (SavePalette 0),
                                             Store ProgramRunning False]\<rparr>
               else s1\<lparr>programRunning := False,
                        trace := trace s1 @ [Store ProgramRunning False]\<rparr>) \<and>
         trace (dispatchEvent X (SDL_QUIT, reply) s) =
           trace s @ [Call SDL_PollEvent, Store AllowSigterm False, Call SDL_ShowMessageBox] @
             (if mb_rc reply < 0 then [Store AllowSigterm True]
              else if mb_button reply = 1 then [Call (SavePalette 0)] else []) @
             [Store ProgramRunning False] \<and>
         \<not> programRunning (dispatchEvent X (SDL_QUIT, reply) s) \<and>
         (keeps_quit_flags (savePalette X 0) \<longrightarrow>
            allowSigterm (dispatchEvent X (SDL_QUIT, reply) s) = (mb_rc reply < 0)) \<and>
         (keeps_quit_flags (savePalette X 0) \<and> 0 \<le> mb_rc reply \<longrightarrow>
            dispatchEvent X (SDL_QUIT, reply') (dispatchEvent X (SDL_QUIT, reply) s) =
              do_call SDL_PollEvent (dispatchEvent X (SDL_QUIT, reply) s)) \<and>
         (\<not> allowSigterm u \<longrightarrow>
            trace (dispatchEvent X (SDL_QUIT, reply) u) = trace u @ [Call SDL_PollEvent] \<and>
            programRunning (dispatchEvent X (SDL_QUIT, reply) u) = programRunning u)"
proof -
  let ?d = "dispatchEvent X (SDL_QUIT, reply) s"
  have st: "?d =
           (let s1 = s\<lparr>allowSigterm := False,
                        trace := trace s @ [Call SDL_PollEvent, Store AllowSigterm False,
                                            Call SDL_ShowMessageBox]\<rparr>
            in if mb_rc reply < 0
               then s1\<lparr>allowSigterm := True, programRunning := False,
                        trace := trace s1 @ [Store AllowSigterm True,
                                             Store ProgramRunning False]\<rparr>
               else if mb_button reply = 1
               then (savePalette X 0 s1)\<lparr>programRunning := False,
                        trace := trace s1 @ [Call (SavePalette 0),
                                             Store ProgramRunning False]\<rparr>
               else s1\<lparr>programRunning := False,
                        trace := trace s1 @ [Store ProgramRunning False]\<rparr>)"
    using assms
    by (simp add: dispatchEvent_def showAskToSaveDialog_def step_defs Let_def)
  have tr: "trace ?d =
           trace s @ [Call SDL_PollEvent, Store AllowSigterm False, Call SDL_ShowMessageBox] @
             (if mb_rc reply < 0 then [Store AllowSigterm True]
              else if mb_button reply = 1 then [Call (SavePalette 0)] else []) @
             [Store ProgramRunning False]"
    and pr: "\<not> programRunning ?d"
    using assms
    by (simp_all add: dispatchEvent_def showAskToSaveDialog_def step_defs Let_def)
  have gd: "allowSigterm ?d = (mb_rc reply < 0)" if "keeps_quit_flags (savePalette X 0)"
    using that assms
    by (simp add: dispatchEvent_def showAskToSaveDialog_def step_defs Let_def
        keeps_quit_flags_def)
  have ig: "dispatchEvent X (SDL_QUIT, r) v = do_call SDL_PollEvent v"
    if "\<not> allowSigterm v" for r v
    using that by (simp add: dispatchEvent_def step_defs Let_def)
  have sq: "dispatchEvent X (SDL_QUIT, reply') ?d = do_call SDL_PollEvent ?d"
    if "keeps_quit_flags (savePalette X 0) \<and> 0 \<le> mb_rc reply"
    using that gd by (intro ig) simp
  have iu: "trace (dispatchEvent X (SDL_QUIT, reply) u) = trace u @ [Call SDL_PollEvent] \<and>
            programRunning (dispatchEvent X (SDL_QUIT, reply) u) = programRunning u"
    if "\<not> allowSigterm u"
    using ig [OF that] by (simp add: do_call_def)
  from st tr pr gd sq iu show ?thesis by blast
qed

theorem quit_unsaved_dialog_witness:
  "dispatchEvent scenario (SDL_QUIT, answer_yes) scenario_state =
     scenario_state\<lparr>allowSigterm := False, configIsSaved := True, programRunning := False,
       trace := [Call SDL_PollEvent, Store AllowSigterm False, Call SDL_ShowMessageBox,
                 Call (SavePalette 0), Store ProgramRunning False]\<rparr> \<and>
   dispatchEvent scenario (SDL_QUIT, answer_no) scenario_state =
     scenario_state\<lparr>allowSigterm := False, programRunning := False,
       trace := [Call SDL_PollEvent, Store AllowSigterm False, Call SDL_ShowMessageBox,
                 Store ProgramRunning False]\<rparr> \<and>
   trace (dispatchEvent scenario (SDL_QUIT, answer_no)
     (dispatchEvent scenario (SDL_QUIT, answer_yes) scenario_state)) =
     [Call SDL_PollEvent, Store AllowSigterm False, Call SDL_ShowMessageBox,
      Call (SavePalette 0), Store ProgramRunning False, Call SDL_PollEvent] \<and>
   trace (dispatchEvent scenario (SDL_QUIT, answer_no)
            (scenario_state\<lparr>allowSigterm := False\<rparr>)) = [Call SDL_PollEvent]"
proof -
  let ?g = "scenario_state\<lparr>allowSigterm := False\<rparr>"
  note y = quit_unsaved_dialog [OF scenario_state_flags(2,3), of scenario answer_yes
      answer_no ?g]
  note n = quit_unsaved_dialog [OF scenario_state_flags(2,3), of scenario answer_no
      answer_no ?g]
  have k: "keeps_quit_flags (savePalette scenario 0)"
    by (simp add: keeps_quit_flags_def scenario_def)
  have sp: "savePalette scenario 0 = (\<lambda>s. s\<lparr>configIsSaved := True\<rparr>)"
    by (simp add: scenario_def)
  have a: "dispatchEvent scenario (SDL_QUIT, answer_yes) scenario_state =
     scenario_state\<lparr>allowSigterm := False, configIsSaved := True, programRunning := False,
       trace := [Call SDL_PollEvent, Store AllowSigterm False, Call SDL_ShowMessageBox,
                 Call (SavePalette 0), Store ProgramRunning False]\<rparr>"
    using y [THEN conjunct1]
    by (simp add: answer_yes_def sp scenario_state_flags Let_def)
  have b: "dispatchEvent scenario (SDL_QUIT, answer_no) scenario_state =
     scenario_state\<lparr>allowSigterm := False, programRunning := False,
       trace := [Call SDL_PollEvent, Store AllowSigterm False, Call SDL_ShowMessageBox,
                 Store ProgramRunning False]\<rparr>"
    using n [THEN conjunct1]
    by (simp add: answer_no_def scenario_state_flags Let_def)
  have "keeps_quit_flags (savePalette scenario 0) \<and> 0 \<le> mb_rc answer_yes"
    using k by (simp add: answer_yes_def)
  from y [THEN conjunct2, THEN conjunct2, THEN conjunct2, THEN conjunct2, THEN conjunct1,
      THEN mp, OF this]
  have c: "trace (dispatchEvent scenario (SDL_QUIT, answer_no)
     (dispatchEvent scenario (SDL_QUIT, answer_yes) scenario_state)) =
     [Call SDL_PollEvent, Store AllowSigterm False, Call SDL_ShowMessageBox,
      Call (SavePalette 0), Store ProgramRunning False, Call SDL_PollEvent]"
    by (simp add: a do_call_def)
  have "\<not> allowSigterm ?g" by simp
  from n [THEN conjunct2, THEN conjunct2, THEN conjunct2, THEN conjunct2, THEN conjunct2,
      THEN mp, OF this]
  have d: "trace (dispatchEvent scenario (SDL_QUIT, answer_no) ?g) = [Call SDL_PollEvent]"
    by (simp add: scenario_state_flags)
  from a b c d show ?thesis by blast
qed

subsection \<open>The message box cannot be shown\<close>

text \<open>
  Claim C4. When \<^verbatim>\<open>SDL_ShowMessageBox\<close> reports an error, the dialog routine sets
  \<^verbatim>\<open>allowSigterm\<close> back to true, so that later quit events are handled again, and clears
  \<^verbatim>\<open>programRunning\<close>; nothing else changes and \<^verbatim>\<open>savePalette\<close> is not called.
\<close>

theorem dialog_failure_stops:
  assumes "mb_rc reply < 0"
  shows "showAskToSaveDialog X reply s =
           s\<lparr>allowSigterm := True, programRunning := False,
             trace := trace s @ [Call SDL_ShowMessageBox, Store AllowSigterm True,
                                 Store ProgramRunning False]\<rparr>"
  using assms by (simp add: showAskToSaveDialog_def step_defs Let_def)

theorem dialog_failure_stops_witness:
  "showAskToSaveDialog scenario answer_failed scenario_state =
     scenario_state\<lparr>allowSigterm := True, programRunning := False,
       trace := [Call SDL_ShowMessageBox, Store AllowSigterm True,
                 Store ProgramRunning False]\<rparr>"
proof -
  have "mb_rc answer_failed < 0" by (simp add: answer_failed_def)
  from dialog_failure_stops [OF this, of scenario scenario_state]
  show ?thesis by (simp add: scenario_state_flags)
qed

subsection \<open>The quit flags along an iteration\<close>

lemma readMouseXY_flags:
  "programRunning (readMouseXY X raw s) = programRunning s"
  "allowSigterm (readMouseXY X raw s) = allowSigterm s"
  "configIsSaved (readMouseXY X raw s) = configIsSaved s"
  "redrawScreen (readMouseXY X raw s) = redrawScreen s"
  by (simp_all add: readMouseXY_def step_defs Let_def split: prod.splits)

lemma keeps_quit_flagsD:
  "keeps_quit_flags h \<Longrightarrow> programRunning (h s) = programRunning s"
  "keeps_quit_flags h \<Longrightarrow> allowSigterm (h s) = allowSigterm s"
  by (simp_all add: keeps_quit_flags_def)

lemma extern_flags:
  assumes "keeps_quit_flags h"
  shows "programRunning (extern c h s) = programRunning s"
    and "allowSigterm (extern c h s) = allowSigterm s"
  using assms by (simp_all add: extern_def keeps_quit_flagsD)

lemma showAskToSaveDialog_stops: "\<not> programRunning (showAskToSaveDialog X reply s)"
  by (simp add: showAskToSaveDialog_def step_defs Let_def)

lemma showAskToSaveDialog_guard:
  assumes "keeps_quit_flags (savePalette X 0)"
  shows "allowSigterm (showAskToSaveDialog X reply s) = (mb_rc reply < 0 \<or> allowSigterm s)"
  using assms
  by (simp add: showAskToSaveDialog_def step_defs Let_def keeps_quit_flagsD)

lemma dispatchEvent_stopped:
  assumes "quit_flags_private X" "\<not> programRunning s"
  shows "\<not> programRunning (dispatchEvent X er s)"
proof (cases "fst er = SDL_QUIT \<and> allowSigterm s")
  case True
  then show ?thesis
    by (simp add: dispatchEvent_def Let_def showAskToSaveDialog_stops)
       (simp add: step_defs)
next
  case False
  with assms show ?thesis
    by (cases "fst er")
       (simp_all add: dispatchEvent_def Let_def quit_flags_private_def extern_flags,
        simp_all add: step_defs)
qed

lemma pollEvents_stopped:
  assumes "quit_flags_private X"
  shows "\<not> programRunning s \<Longrightarrow> \<not> programRunning (pollEvents X ers s)"
proof (induction ers arbitrary: s)
  case Nil
  then show ?case by (simp add: step_defs)
next
  case (Cons er ers)
  from assms Cons.prems have "\<not> programRunning (dispatchEvent X er s)"
    by (rule dispatchEvent_stopped)
  then show ?case by (simp add: Cons.IH)
qed

lemma handleInput_stopped:
  assumes "quit_flags_private X" "\<not> programRunning s"
  shows "\<not> programRunning (handleInput X ers s)"
proof -
  have "\<not> programRunning (pollEvents X ers s)"
    using assms by (rule pollEvents_stopped)
  with assms(1) show ?thesis
    by (simp add: handleInput_def Let_def quit_flags_private_def extern_flags)
qed

lemma presentFrame_flags:
  "programRunning (presentFrame X s) = programRunning s"
  "allowSigterm (presentFrame X s) = allowSigterm s"
  "\<not> redrawScreen (presentFrame X s)"
  by (simp_all add: presentFrame_def step_defs Let_def)

lemma loopBody_running:
  "programRunning (loopBody X t s) =
     programRunning (handleInput X (polled t) (readMouseXY X (raw_mouse t) s))"
  by (simp add: loopBody_def Let_def presentFrame_flags do_call_def)


lemma frameLoop_stopped: "frameLoop X ts s = Inr s' \<Longrightarrow> \<not> programRunning s'"
  by (induction ts arbitrary: s) (auto split: if_splits)

lemma setupVideo_globals:
  assumes "setupVideo X P s = Inr (ok, s1)"
  shows "allowSigterm s1 = allowSigterm s" "configIsSaved s1 = configIsSaved s"
    "programRunning s1 = programRunning s"
  using assms unfolding setupVideo_def Let_def showErrorMsgBox_def do_call_def
  by (auto split: if_splits option.splits)

lemma frameLoop_last_iteration:
  assumes "programRunning s" "\<not> programRunning (loopBody X t s)"
  shows "frameLoop X (t # ts) s = Inr (loopBody X t s)"
  using assms by (cases ts) simp_all

lemma quit_unsaved_last_iteration:
  assumes "quit_flags_private X"
    and "programRunning s" "allowSigterm s" "\<not> configIsSaved s"
    and "polled t = (SDL_QUIT, reply) # rest"
  shows "frameLoop X (t # ts) s = Inr (loopBody X t s)"
proof -
  let ?m = "readMouseXY X (raw_mouse t) s"
  have "dispatchEvent X (SDL_QUIT, reply) ?m =
          showAskToSaveDialog X reply (set_allowSigterm False (do_call SDL_PollEvent ?m))"
    using assms(3,4) by (simp add: dispatchEvent_def Let_def readMouseXY_flags do_call_def)
  then have "\<not> programRunning (dispatchEvent X (SDL_QUIT, reply) ?m)"
    by (simp add: showAskToSaveDialog_stops)
  then have "\<not> programRunning (handleInput X rest (dispatchEvent X (SDL_QUIT, reply) ?m))"
    by (rule handleInput_stopped [OF assms(1)])
  then have "\<not> programRunning (loopBody X t s)"
    by (simp add: loopBody_running assms(5) handleInput_def)
  with assms(2) show ?thesis by (rule frameLoop_last_iteration)
qed

lemma scenario_private: "quit_flags_private scenario"
  by (simp add: quit_flags_private_def keeps_quit_flags_def scenario_def)

subsection \<open>The guard is set only while the program stops\<close>

text \<open>
  \<open>guard_inv\<close> holds when the loop is entered and after every event and every iteration,
  provided the other modules leave the two flags alone.
\<close>

lemma dispatchEvent_guard_inv:
  assumes "quit_flags_private X" "guard_inv s"
  shows "guard_inv (dispatchEvent X er s)"
proof (cases "fst er = SDL_QUIT \<and> allowSigterm s")
  case True
  then show ?thesis
    by (simp add: dispatchEvent_def Let_def guard_inv_def showAskToSaveDialog_stops)
       (simp add: step_defs)
next
  case False
  with assms show ?thesis
    by (cases "fst er")
       (simp_all add: dispatchEvent_def Let_def guard_inv_def quit_flags_private_def
          extern_flags,
        simp_all add: step_defs)
qed

lemma pollEvents_guard_inv:
  assumes "quit_flags_private X"
  shows "guard_inv s \<Longrightarrow> guard_inv (pollEvents X ers s)"
proof (induction ers arbitrary: s)
  case Nil
  then show ?case by (simp add: guard_inv_def step_defs)
next
  case (Cons er ers)
  from assms Cons.prems have "guard_inv (dispatchEvent X er s)"
    by (rule dispatchEvent_guard_inv)
  then show ?case by (simp add: Cons.IH)
qed

lemma loopBody_guard_inv:
  assumes "quit_flags_private X" "guard_inv s"
  shows "guard_inv (loopBody X t s)"
proof -
  have "guard_inv (readMouseXY X (raw_mouse t) s)"
    using assms(2) by (simp add: guard_inv_def readMouseXY_flags)
  then have "guard_inv (pollEvents X (polled t) (readMouseXY X (raw_mouse t) s))"
    by (rule pollEvents_guard_inv [OF assms(1)])
  with assms(1) have "guard_inv (handleInput X (polled t) (readMouseXY X (raw_mouse t) s))"
    by (simp add: handleInput_def Let_def guard_inv_def quit_flags_private_def extern_flags)
  then show ?thesis
    by (simp add: loopBody_def Let_def guard_inv_def presentFrame_flags do_call_def)
qed

lemma enterLoop_guard_inv:
  assumes "quit_flags_private X" "allowSigterm s"
  shows "guard_inv (enterLoop X s)"
  using assms
  by (simp add: enterLoop_def guard_inv_def quit_flags_private_def
      set_programRunning_def set_redrawScreen_def extern_flags)

subsection \<open>A quit event with saved colours\<close>

text \<open>
  Claim C6. A quit event that is dispatched while the palette is saved shows no message
  box and leaves \<^verbatim>\<open>allowSigterm\<close> as it is; \<^verbatim>\<open>programRunning\<close> is false when the
  dispatch of that event returns. If \<^verbatim>\<open>allowSigterm\<close> is true the event clears
  \<^verbatim>\<open>programRunning\<close>; if it is false the event is ignored, and by \<open>guard_inv\<close>
  \<^verbatim>\<open>programRunning\<close> is false already.
\<close>

theorem quit_saved_stops:
  assumes "configIsSaved s" "guard_inv s"
  shows "dispatchEvent X (SDL_QUIT, reply) s =
           (if allowSigterm s
            then s\<lparr>programRunning := False,
                   trace := trace s @ [Call SDL_PollEvent, Store ProgramRunning False]\<rparr>
            else s\<lparr>trace := trace s @ [Call SDL_PollEvent]\<rparr>) \<and>
         \<not> programRunning (dispatchEvent X (SDL_QUIT, reply) s) \<and>
         allowSigterm (dispatchEvent X (SDL_QUIT, reply) s) = allowSigterm s \<and>
         Call SDL_ShowMessageBox \<notin>
           set (drop (length (trace s)) (trace (dispatchEvent X (SDL_QUIT, reply) s)))"
  using assms by (auto simp: dispatchEvent_def step_defs Let_def guard_inv_def)


theorem quit_saved_stops_witness:
  "dispatchEvent scenario (SDL_QUIT, answer_no) (scenario_state\<lparr>configIsSaved := True\<rparr>) =
     scenario_state\<lparr>configIsSaved := True, programRunning := False,
       trace := [Call SDL_PollEvent, Store ProgramRunning False]\<rparr> \<and>
   allowSigterm (dispatchEvent scenario (SDL_QUIT, answer_no)
     (scenario_state\<lparr>configIsSaved := True\<rparr>))"
proof -
  have "configIsSaved (scenario_state\<lparr>configIsSaved := True\<rparr>)"
    and "guard_inv (scenario_state\<lparr>configIsSaved := True\<rparr>)"
    by (simp_all add: guard_inv_def scenario_state_flags)
  from quit_saved_stops [OF this, of scenario answer_no]
  show ?thesis by (simp add: scenario_state_flags)
qed

subsection \<open>After the dialog\<close>

text \<open>
  Claim C10. Every return from the dialog routine leaves \<^verbatim>\<open>programRunning\<close> false.
  Called as \<^verbatim>\<open>handleInput\<close> calls it, with \<^verbatim>\<open>allowSigterm\<close> just cleared, it returns
  with \<^verbatim>\<open>allowSigterm\<close> still false when the message box was shown, whatever the answer,
  and with \<^verbatim>\<open>allowSigterm\<close> true only when the message box failed. The iteration of the
  frame loop in which the dialog ran is the last one. The other modules are assumed not to
  store to the two flags.
\<close>

theorem dialog_leaves_guard:
  assumes "quit_flags_private X"
    and "programRunning s" "allowSigterm s" "\<not> configIsSaved s"
    and "polled t = (SDL_QUIT, reply) # rest"
  shows "\<not> programRunning (showAskToSaveDialog X reply u) \<and>
         allowSigterm (showAskToSaveDialog X reply (set_allowSigterm False u)) =
           (mb_rc reply < 0) \<and>
         frameLoop X (t # ts) s = Inr (loopBody X t s)"
proof -
  have sp: "keeps_quit_flags (savePalette X 0)"
    using assms(1) by (simp add: quit_flags_private_def)
  have "allowSigterm (showAskToSaveDialog X reply (set_allowSigterm False u)) =
          (mb_rc reply < 0)"
    by (simp add: showAskToSaveDialog_guard [OF sp]) (simp add: step_defs)
  moreover have "frameLoop X (t # ts) s = Inr (loopBody X t s)"
    using assms by (rule quit_unsaved_last_iteration)
  ultimately show ?thesis by (simp add: showAskToSaveDialog_stops)
qed

theorem dialog_leaves_guard_witness:
  "\<not> programRunning (showAskToSaveDialog scenario answer_yes scenario_state) \<and>
   \<not> allowSigterm (showAskToSaveDialog scenario answer_yes
        (set_allowSigterm False scenario_state)) \<and>
   frameLoop scenario [quit_tick answer_yes, idle_tick] scenario_state =
     Inr (loopBody scenario (quit_tick answer_yes) scenario_state)"
proof -
  have h: "programRunning scenario_state" "allowSigterm scenario_state"
          "\<not> configIsSaved scenario_state"
    by (simp_all add: scenario_state_def)
  have p: "polled (quit_tick answer_yes) = (SDL_QUIT, answer_yes) # []"
    by (simp add: quit_tick_def)
  from dialog_leaves_guard [OF scenario_private h p, of scenario_state "[idle_tick]"]
  show ?thesis by (simp add: answer_yes_def)
qed

section \<open>The frame loop\<close>

subsection \<open>Where the render calls and the sleep occur\<close>

lemma readMouseXY_quiet:
  "filter is_render (trace (readMouseXY X raw s)) = filter is_render (trace s)"
  "filter is_delay (trace (readMouseXY X raw s)) = filter is_delay (trace s)"
  by (simp_all add: readMouseXY_def step_defs Let_def split: prod.splits)

lemma showAskToSaveDialog_quiet:
  "filter is_render (trace (showAskToSaveDialog X reply s)) = filter is_render (trace s)"
  "filter is_delay (trace (showAskToSaveDialog X reply s)) = filter is_delay (trace s)"
  by (simp_all add: showAskToSaveDialog_def step_defs Let_def)

lemma dispatchEvent_quiet:
  "filter is_render (trace (dispatchEvent X er s)) = filter is_render (trace s)"
  "filter is_delay (trace (dispatchEvent X er s)) = filter is_delay (trace s)"
  by (cases "fst er";
      simp add: dispatchEvent_def Let_def showAskToSaveDialog_quiet; simp add: step_defs)+

lemma pollEvents_quiet:
  "filter is_render (trace (pollEvents X ers s)) = filter is_render (trace s)"
  "filter is_delay (trace (pollEvents X ers s)) = filter is_delay (trace s)"
  by (induction ers arbitrary: s) (simp_all add: dispatchEvent_quiet do_call_def)

lemma handleInput_quiet:
  "filter is_render (trace (handleInput X ers s)) = filter is_render (trace s)"
  "filter is_delay (trace (handleInput X ers s)) = filter is_delay (trace s)"
  by (simp_all add: handleInput_def Let_def extern_def pollEvents_quiet)

lemma presentFrame_trace:
  "trace (presentFrame X s) =
     trace s @ [Store RedrawScreen False, Call (SDL_UpdateTexture (SCREEN_W X * 4)),
                Call SDL_RenderClear, Call SDL_RenderCopy, Call SDL_RenderPresent]"
  by (simp add: presentFrame_def step_defs Let_def)

text \<open>
  Claim C7. In one iteration of the frame loop the four render calls are made exactly when
  \<^verbatim>\<open>redrawScreen\<close> is true after \<^verbatim>\<open>handleInput\<close> has returned, and not at all when it
  is false; the iteration ends with one \<^verbatim>\<open>SDL_Delay\<close> of \<open>1000 div 60 + 1 = 17\<close>
  milliseconds, which is not less than \<open>1000 / 60\<close>.
\<close>

theorem render_only_when_pending:
  "filter is_render (trace (loopBody X t s)) =
     filter is_render (trace s) @
       (if redrawScreen (handleInput X (polled t) (readMouseXY X (raw_mouse t) s))
        then [Call (SDL_UpdateTexture (SCREEN_W X * 4)), Call SDL_RenderClear,
              Call SDL_RenderCopy, Call SDL_RenderPresent]
        else []) \<and>
   filter is_delay (trace (loopBody X t s)) =
     filter is_delay (trace s) @ [Call (SDL_Delay 17)] \<and>
   last (trace (loopBody X t s)) = Call (SDL_Delay (1000 div 60 + 1)) \<and>
   (1000 :: rat) / 60 \<le> 17"
  by (simp add: loopBody_def Let_def do_call_def presentFrame_trace handleInput_quiet
      readMouseXY_quiet)


subsection \<open>The redraw flag along an iteration\<close>

lemma keeps_redrawD: "keeps_redraw h \<Longrightarrow> redrawScreen s \<Longrightarrow> redrawScreen (h s)"
  by (simp add: keeps_redraw_def)

lemma extern_redraw:
  "keeps_redraw h \<Longrightarrow> redrawScreen s \<Longrightarrow> redrawScreen (extern c h s)"
  by (simp add: extern_def keeps_redrawD)

lemma showAskToSaveDialog_redraw:
  assumes "redraw_never_cleared X" "redrawScreen s"
  shows "redrawScreen (showAskToSaveDialog X reply s)"
proof -
  have "keeps_redraw (savePalette X 0)"
    using assms(1) by (simp add: redraw_never_cleared_def)
  then have "redrawScreen (extern (SavePalette 0) (savePalette X 0) (do_call SDL_ShowMessageBox s))"
    using assms(2) by (intro extern_redraw) (simp_all add: do_call_def)
  with assms(2) show ?thesis
    by (simp add: showAskToSaveDialog_def Let_def set_programRunning_def
        set_allowSigterm_def do_call_def)
qed

lemma dispatchEvent_redraw:
  assumes "redraw_never_cleared X" "redrawScreen s"
  shows "redrawScreen (dispatchEvent X er s)"
proof -
  let ?p = "do_call SDL_PollEvent s"
  have p: "redrawScreen ?p" using assms(2) by (simp add: do_call_def)
  have q: "redrawScreen (set_allowSigterm False ?p)"
    using assms(2) by (simp add: do_call_def set_allowSigterm_def)
  show ?thesis
  proof (cases "fst er = SDL_QUIT \<and> allowSigterm ?p")
    case True
    with p showAskToSaveDialog_redraw [OF assms(1) q] show ?thesis
      by (simp add: dispatchEvent_def Let_def set_programRunning_def)
  next
    case False
    with assms(1) p show ?thesis
      by (cases "fst er")
         (simp_all add: dispatchEvent_def Let_def redraw_never_cleared_def extern_redraw)
  qed
qed

lemma pollEvents_redraw:
  assumes "redraw_never_cleared X"
  shows "redrawScreen s \<Longrightarrow> redrawScreen (pollEvents X ers s)"
proof (induction ers arbitrary: s)
  case Nil
  then show ?case by (simp add: do_call_def)
next
  case (Cons er ers)
  from assms Cons.prems have "redrawScreen (dispatchEvent X er s)"
    by (rule dispatchEvent_redraw)
  then show ?case by (simp add: Cons.IH)
qed

lemma handleInput_redraw:
  assumes "redraw_never_cleared X" "redrawScreen s"
  shows "redrawScreen (handleInput X ers s)"
proof -
  have "redrawScreen (pollEvents X ers s)"
    using assms by (rule pollEvents_redraw)
  with assms(1) show ?thesis
    by (simp add: handleInput_def Let_def redraw_never_cleared_def extern_redraw)
qed

lemma enterLoop_flags:
  "redrawScreen (enterLoop X s)" "programRunning (enterLoop X s)"
  "filter is_render (trace (enterLoop X s)) = filter is_render (trace s)"
  by (simp_all add: enterLoop_def step_defs)

lemma loopBody_after_redraw:
  assumes "redraw_never_cleared X" "redrawScreen s"
  shows "filter is_render (trace (loopBody X t s)) =
           filter is_render (trace s) @
             [Call (SDL_UpdateTexture (SCREEN_W X * 4)), Call SDL_RenderClear,
              Call SDL_RenderCopy, Call SDL_RenderPresent]"
    and "\<not> redrawScreen (loopBody X t s)"
proof -
  let ?h = "handleInput X (polled t) (readMouseXY X (raw_mouse t) s)"
  have "redrawScreen (readMouseXY X (raw_mouse t) s)"
    using assms(2) by (simp add: readMouseXY_def step_defs Let_def split: prod.splits)
  with assms(1) have r: "redrawScreen ?h" by (rule handleInput_redraw)
  then show "filter is_render (trace (loopBody X t s)) =
           filter is_render (trace s) @
             [Call (SDL_UpdateTexture (SCREEN_W X * 4)), Call SDL_RenderClear,
              Call SDL_RenderCopy, Call SDL_RenderPresent]"
    by (simp add: loopBody_def Let_def do_call_def presentFrame_trace handleInput_quiet
        readMouseXY_quiet)
  from r show "\<not> redrawScreen (loopBody X t s)"
    by (simp add: loopBody_def Let_def do_call_def presentFrame_flags)
qed

lemma loopBody_renders:
  "filter is_render (trace (loopBody X t s)) =
     filter is_render (trace s) @
       (if redrawScreen (handleInput X (polled t) (readMouseXY X (raw_mouse t) s))
        then [Call (SDL_UpdateTexture (SCREEN_W X * 4)), Call SDL_RenderClear,
              Call SDL_RenderCopy, Call SDL_RenderPresent]
        else [])"
  by (simp add: loopBody_def Let_def do_call_def presentFrame_trace handleInput_quiet
      readMouseXY_quiet)

lemma frameLoop_renders:
  "frameLoop X ts s = Inr s' \<Longrightarrow>
     \<exists>rest. filter is_render (trace s') = filter is_render (trace s) @ rest"
proof (induction ts arbitrary: s)
  case Nil
  then show ?case by (simp split: if_splits)
next
  case (Cons t ts)
  show ?case
  proof (cases "programRunning s")
    case True
    with Cons.prems have "frameLoop X ts (loopBody X t s) = Inr s'" by simp
    then obtain rest where
      "filter is_render (trace s') = filter is_render (trace (loopBody X t s)) @ rest"
      using Cons.IH by blast
    then show ?thesis by (simp add: loopBody_renders)
  next
    case False
    with Cons.prems show ?thesis by simp
  qed
qed

lemma shutdown_quiet: "filter is_render (trace (shutdown s)) = filter is_render (trace s)"
  by (simp add: shutdown_def do_call_def Let_def)

lemma setupVideo_quiet:
  assumes "setupVideo X P s = Inr (ok, s1)"
  shows "filter is_render (trace s1) = filter is_render (trace s)"
  using assms unfolding setupVideo_def Let_def showErrorMsgBox_def do_call_def
  by (auto split: if_splits option.splits)

lemma main_prog_after_setup:
  assumes "setupVideo X P s0 = Inr (True, s)"
  shows "main_prog X P ts s0 =
           map_sum id (\<lambda>s2. (0, shutdown s2)) (frameLoop X ts (enterLoop X s))"
  using assms by (cases "frameLoop X ts (enterLoop X s)") (simp_all add: main_prog_def)

lemma first_frame_in_run:
  assumes "redraw_never_cleared X" "frameLoop X (t # ts) (enterLoop X s) = Inr s'"
  shows "\<exists>rest. filter is_render (trace s') =
           filter is_render (trace s) @
             [Call (SDL_UpdateTexture (SCREEN_W X * 4)), Call SDL_RenderClear,
              Call SDL_RenderCopy, Call SDL_RenderPresent] @ rest"
proof -
  let ?b = "loopBody X t (enterLoop X s)"
  from assms(2) have "frameLoop X ts ?b = Inr s'" by (simp add: enterLoop_flags)
  then obtain rest where "filter is_render (trace s') = filter is_render (trace ?b) @ rest"
    using frameLoop_renders by blast
  then show ?thesis
    by (simp add: loopBody_after_redraw(1) [OF assms(1) enterLoop_flags(1)] enterLoop_flags(3))
qed

text \<open>
  Claim C8. When \<^verbatim>\<open>main\<close> has run \<^verbatim>\<open>setupGUI\<close> and set its two flags (lines 65 to 68,
  reached when \<^verbatim>\<open>setupVideo\<close> succeeded), \<^verbatim>\<open>redrawScreen\<close> and \<^verbatim>\<open>programRunning\<close>
  are true. So the first iteration runs, and it renders the canvas once and leaves
  \<^verbatim>\<open>redrawScreen\<close> false, provided the routines called in between set the flag but never
  clear it. The loop returns the state of that iteration when it was the last one; every
  state the loop returns, and every state \<^verbatim>\<open>main\<close> returns after a successful start-up,
  has the four render calls of the first frame in its trace, before any later render call;
  and after a successful start-up \<^verbatim>\<open>main\<close> returns what the loop returns, shut down.
\<close>

theorem first_frame_rendered:
  assumes "redraw_never_cleared X"
  shows "redrawScreen (enterLoop X s) \<and> programRunning (enterLoop X s) \<and>
         frameLoop X (t # ts) (enterLoop X s) =
           frameLoop X ts (loopBody X t (enterLoop X s)) \<and>
         filter is_render (trace (loopBody X t (enterLoop X s))) =
           filter is_render (trace s) @
             [Call (SDL_UpdateTexture (SCREEN_W X * 4)), Call SDL_RenderClear,
              Call SDL_RenderCopy, Call SDL_RenderPresent] \<and>
         \<not> redrawScreen (loopBody X t (enterLoop X s)) \<and>
         (\<not> programRunning (loopBody X t (enterLoop X s)) \<longrightarrow>
            frameLoop X (t # ts) (enterLoop X s) = Inr (loopBody X t (enterLoop X s))) \<and>
         (frameLoop X (t # ts) (enterLoop X s) = Inr s' \<longrightarrow>
            (\<exists>rest. filter is_render (trace s') =
               filter is_render (trace s) @
                 [Call (SDL_UpdateTexture (SCREEN_W X * 4)), Call SDL_RenderClear,
                  Call SDL_RenderCopy, Call SDL_RenderPresent] @ rest)) \<and>
         (setupVideo X P s0 = Inr (True, s) \<longrightarrow>
            main_prog X P (t # ts) s0 =
              map_sum id (\<lambda>s2. (0, shutdown s2)) (frameLoop X (t # ts) (enterLoop X s))) \<and>
         (setupVideo X P s0 = Inr (True, s) \<and> main_prog X P (t # ts) s0 = Inr (rc, s'') \<longrightarrow>
            (\<exists>rest. filter is_render (trace s'') =
               filter is_render (trace s) @
                 [Call (SDL_UpdateTexture (SCREEN_W X * 4)), Call SDL_RenderClear,
                  Call SDL_RenderCopy, Call SDL_RenderPresent] @ rest))"
proof -
  let ?e = "enterLoop X s" and ?b = "loopBody X t (enterLoop X s)"
  let ?four = "[Call (SDL_UpdateTexture (SCREEN_W X * 4)), Call SDL_RenderClear,
                Call SDL_RenderCopy, Call SDL_RenderPresent]"
  have a: "redrawScreen ?e" "programRunning ?e" by (rule enterLoop_flags)+
  have b: "frameLoop X (t # ts) ?e = frameLoop X ts ?b" using a(2) by simp
  have c: "filter is_render (trace ?b) = filter is_render (trace s) @ ?four"
    using loopBody_after_redraw(1) [OF assms a(1)] by (simp add: enterLoop_flags)
  have d: "\<not> redrawScreen ?b" by (rule loopBody_after_redraw(2) [OF assms a(1)])
  have e: "frameLoop X (t # ts) ?e = Inr ?b" if "\<not> programRunning ?b"
    using a(2) that by (rule frameLoop_last_iteration)
  have f: "\<exists>rest. filter is_render (trace s') = filter is_render (trace s) @ ?four @ rest"
    if "frameLoop X (t # ts) ?e = Inr s'"
    using assms that by (rule first_frame_in_run)
  have g: "main_prog X P (t # ts) s0 =
             map_sum id (\<lambda>s2. (0, shutdown s2)) (frameLoop X (t # ts) ?e)"
    if "setupVideo X P s0 = Inr (True, s)"
    using that by (rule main_prog_after_setup)
  have h: "\<exists>rest. filter is_render (trace s'') = filter is_render (trace s) @ ?four @ rest"
    if "setupVideo X P s0 = Inr (True, s) \<and> main_prog X P (t # ts) s0 = Inr (rc, s'')"
  proof -
    from that g have m: "map_sum id (\<lambda>s2. (0, shutdown s2)) (frameLoop X (t # ts) ?e) =
        Inr (rc, s'')" by simp
    then obtain s2 where s2: "frameLoop X (t # ts) ?e = Inr s2" "s'' = shutdown s2"
      by (cases "frameLoop X (t # ts) ?e") auto
    from first_frame_in_run [OF assms s2(1)] show ?thesis
      by (simp add: s2(2) shutdown_quiet)
  qed
  from a b c d e f g h show ?thesis by blast
qed

lemma scenario_redraw: "redraw_never_cleared scenario"
  by (simp add: redraw_never_cleared_def keeps_redraw_def scenario_def)

theorem first_frame_rendered_witness:
  "redrawScreen (enterLoop scenario scenario_state) \<and>
   frameLoop scenario [quit_tick answer_no] (enterLoop scenario scenario_state) =
     Inr (loopBody scenario (quit_tick answer_no) (enterLoop scenario scenario_state)) \<and>
   filter is_render
     (trace (loopBody scenario (quit_tick answer_no) (enterLoop scenario scenario_state))) =
     [Call (SDL_UpdateTexture 512), Call SDL_RenderClear, Call SDL_RenderCopy,
      Call SDL_RenderPresent] \<and>
   \<not> redrawScreen (loopBody scenario (quit_tick answer_no) (enterLoop scenario scenario_state)) \<and>
   (\<exists>s' rest. main_prog scenario scenario_platform [quit_tick answer_no]
        (startup False None ()) = Inr (0, s') \<and>
      filter is_render (trace s') =
        [Call (SDL_UpdateTexture 512), Call SDL_RenderClear, Call SDL_RenderCopy,
         Call SDL_RenderPresent] @ rest)"
proof -
  let ?q = "quit_tick answer_no"
  let ?s0 = "startup False None () :: unit app"
  have p: "polled ?q = (SDL_QUIT, answer_no) # []" by (simp add: quit_tick_def)
  have w: "SCREEN_W scenario * 4 = 512" by (simp add: scenario_consts)
  have stop: "\<not> programRunning (loopBody scenario ?q (enterLoop scenario u))"
    if "allowSigterm u" "\<not> configIsSaved u" for u :: "unit app"
  proof -
    let ?e = "enterLoop scenario u"
    have "programRunning ?e" "allowSigterm ?e" "\<not> configIsSaved ?e"
      using that by (simp_all add: enterLoop_def step_defs scenario_def)
    then have "frameLoop scenario [?q] ?e = Inr (loopBody scenario ?q ?e)"
      using p by (intro quit_unsaved_last_iteration scenario_private)
    then show ?thesis by (rule frameLoop_stopped)
  qed
  note t1 = first_frame_rendered [OF scenario_redraw, of scenario_state ?q "[]"]
  let ?b = "loopBody scenario ?q (enterLoop scenario scenario_state)"
  have a: "redrawScreen (enterLoop scenario scenario_state)"
    using t1 by blast
  have "\<not> programRunning ?b"
    by (rule stop) (simp_all add: scenario_state_flags)
  with t1 have b: "frameLoop scenario [?q] (enterLoop scenario scenario_state) = Inr ?b"
    by blast
  have c: "filter is_render (trace ?b) =
     [Call (SDL_UpdateTexture 512), Call SDL_RenderClear, Call SDL_RenderCopy,
      Call SDL_RenderPresent]"
    using t1 [THEN conjunct2, THEN conjunct2, THEN conjunct2, THEN conjunct1]
    by (simp add: w scenario_state_flags)
  have d: "\<not> redrawScreen ?b" using t1 by blast
  have y: "calcScaleMul 64 128 = Some 32768"
    using calcScaleMul_double by (simp add: calcScaleMul_def)
  have "\<exists>s1. setupVideo scenario scenario_platform ?s0 = Inr (True, s1) \<and>
          xScaleMul s1 = 32768 \<and> yScaleMul s1 = 32768"
    by (rule setupVideo_success)
       (simp_all add: scenario_def scenario_platform_def calcScaleMul_double y)
  then obtain s1 where s1: "setupVideo scenario scenario_platform ?s0 = Inr (True, s1)"
    by blast
  have q1: "filter is_render (trace s1) = []"
    using setupVideo_quiet [OF s1] by (simp add: startup_def)
  have f1: "allowSigterm s1" "\<not> configIsSaved s1"
    using setupVideo_globals [OF s1] by (simp_all add: startup_def)
  let ?b1 = "loopBody scenario ?q (enterLoop scenario s1)"
  note t2 = first_frame_rendered [OF scenario_redraw, of s1 ?q "[]" _ scenario_platform ?s0 0
      "shutdown ?b1"]
  have "\<not> programRunning ?b1" using f1 by (rule stop)
  with t2 have l: "frameLoop scenario [?q] (enterLoop scenario s1) = Inr ?b1" by blast
  from t2 s1 have "main_prog scenario scenario_platform [?q] ?s0 =
      map_sum id (\<lambda>s2. (0, shutdown s2)) (frameLoop scenario [?q] (enterLoop scenario s1))"
    by blast
  with l have m: "main_prog scenario scenario_platform [?q] ?s0 = Inr (0, shutdown ?b1)"
    by simp
  with t2 s1 have "\<exists>rest. filter is_render (trace (shutdown ?b1)) =
      filter is_render (trace s1) @
        [Call (SDL_UpdateTexture (SCREEN_W scenario * 4)), Call SDL_RenderClear,
         Call SDL_RenderCopy, Call SDL_RenderPresent] @ rest"
    by blast
  then obtain rest where "filter is_render (trace (shutdown ?b1)) =
      [Call (SDL_UpdateTexture 512), Call SDL_RenderClear, Call SDL_RenderCopy,
       Call SDL_RenderPresent] @ rest"
    by (auto simp: q1 w)
  with m have e: "\<exists>s' rest. main_prog scenario scenario_platform [?q] ?s0 = Inr (0, s') \<and>
      filter is_render (trace s') =
        [Call (SDL_UpdateTexture 512), Call SDL_RenderClear, Call SDL_RenderCopy,
         Call SDL_RenderPresent] @ rest"
    by blast
  from a b c d e show ?thesis by blast
qed

section \<open>Start-up failures and the exit code\<close>

lemma setupVideo_failure:
  assumes "\<not> (init_rc P = 0 \<and> window_ok P \<and> renderer_ok P \<and> texture_ok P \<and> malloc_ok P)"
  shows "\<exists>e pre. setupVideo X P s =
           Inr (False, s\<lparr>trace := trace s @ pre @ [Call (SDL_ShowSimpleMessageBox e)]\<rparr>)"
proof -
  consider (init) "init_rc P \<noteq> 0"
    | (window) "init_rc P = 0" "\<not> window_ok P"
    | (renderer) "init_rc P = 0" "window_ok P" "\<not> renderer_ok P"
    | (texture) "init_rc P = 0" "window_ok P" "renderer_ok P" "\<not> texture_ok P"
    | (malloc) "init_rc P = 0" "window_ok P" "renderer_ok P" "texture_ok P" "\<not> malloc_ok P"
    using assms by blast
  then show ?thesis
  proof cases
    case init
    then have "setupVideo X P s =
      Inr (False, s\<lparr>trace := trace s @ [Call SDL_Init] @
        [Call (SDL_ShowSimpleMessageBox CouldntInitSDL)]\<rparr>)"
      unfolding setupVideo_def Let_def showErrorMsgBox_def do_call_def by simp
    then show ?thesis by blast
  next
    case window
    then have "setupVideo X P s =
      Inr (False, s\<lparr>trace := trace s @
        [Call SDL_Init, Call (SDL_CreateWindow (SCREEN_W X * 2) (SCREEN_H X * 2))] @
        [Call (SDL_ShowSimpleMessageBox CouldntCreateWindow)]\<rparr>)"
      unfolding setupVideo_def Let_def showErrorMsgBox_def do_call_def by simp
    then show ?thesis by blast
  next
    case renderer
    then have "setupVideo X P s =
      Inr (False, s\<lparr>trace := trace s @
        [Call SDL_Init, Call (SDL_CreateWindow (SCREEN_W X * 2) (SCREEN_H X * 2)),
         Call SDL_CreateRenderer] @
        [Call (SDL_ShowSimpleMessageBox CouldntCreateRenderer)]\<rparr>)"
      unfolding setupVideo_def Let_def showErrorMsgBox_def do_call_def by simp
    then show ?thesis by blast
  next
    case texture
    then have "setupVideo X P s =
      Inr (False, s\<lparr>trace := trace s @
        [Call SDL_Init, Call (SDL_CreateWindow (SCREEN_W X * 2) (SCREEN_H X * 2)),
         Call SDL_CreateRenderer, Call (SDL_RenderSetLogicalSize (SCREEN_W X) (SCREEN_H X)),
         Call SDL_RenderSetIntegerScale, Call SDL_SetRenderDrawBlendMode, Call SDL_SetHint,
         Call (SDL_CreateTexture (SCREEN_W X) (SCREEN_H X))] @
        [Call (SDL_ShowSimpleMessageBox CouldntCreateTexture)]\<rparr>)"
      unfolding setupVideo_def Let_def showErrorMsgBox_def do_call_def by simp
    then show ?thesis by blast
  next
    case malloc
    then have "setupVideo X P s =
      Inr (False, s\<lparr>trace := trace s @
        [Call SDL_Init, Call (SDL_CreateWindow (SCREEN_W X * 2) (SCREEN_H X * 2)),
         Call SDL_CreateRenderer, Call (SDL_RenderSetLogicalSize (SCREEN_W X) (SCREEN_H X)),
         Call SDL_RenderSetIntegerScale, Call SDL_SetRenderDrawBlendMode, Call SDL_SetHint,
         Call (SDL_CreateTexture (SCREEN_W X) (SCREEN_H X)), Call SDL_SetTextureBlendMode,
         Call (Malloc (SCREEN_W X * SCREEN_H X * 4))] @
        [Call (SDL_ShowSimpleMessageBox OutOfMemory)]\<rparr>)"
      unfolding setupVideo_def Let_def showErrorMsgBox_def do_call_def by simp
    then show ?thesis by blast
  qed
qed

lemma main_prog_exit_code: "main_prog X P ts s = Inr (rc, s') \<Longrightarrow> rc = 0"
  by (auto simp: main_prog_def split: sum.splits prod.splits if_splits)

lemma main_prog_setup_failure:
  assumes "\<not> (init_rc P = 0 \<and> window_ok P \<and> renderer_ok P \<and> texture_ok P \<and> malloc_ok P)"
  shows "\<exists>e pre. main_prog X P ts s =
           Inr (0, s\<lparr>trace := trace s @ pre @
                        [Call (SDL_ShowSimpleMessageBox e), Call SDL_Quit]\<rparr>)"
proof -
  from setupVideo_failure [OF assms] obtain e pre where
    "setupVideo X P s =
       Inr (False, s\<lparr>trace := trace s @ pre @ [Call (SDL_ShowSimpleMessageBox e)]\<rparr>)"
    by blast
  then have "main_prog X P ts s =
      Inr (0, s\<lparr>trace := trace s @ pre @ [Call (SDL_ShowSimpleMessageBox e), Call SDL_Quit]\<rparr>)"
    by (simp add: main_prog_def do_call_def)
  then show ?thesis by blast
qed

lemma main_prog_normal:
  assumes "setupVideo X P s = Inr (True, s1)" "frameLoop X ts (enterLoop X s1) = Inr s2"
  shows "main_prog X P ts s = Inr (0, shutdown s2)"
  using assms by (simp add: main_prog_def)

lemma shutdown_trace:
  "trace (shutdown s) =
     trace s @ (if loadedFile s \<noteq> None then [Call FreeLoadedFile] else []) @
       [Call FreeFrameBuffer, Call SDL_Quit]"
  by (simp add: shutdown_def do_call_def Let_def)

text \<open>
  Claim C9. Whenever \<^verbatim>\<open>main\<close> returns, it returns 0. When a step of \<^verbatim>\<open>setupVideo\<close>
  fails (the video subsystem, the window, the renderer, the texture or the frame buffer),
  \<^verbatim>\<open>main\<close> returns 0 after the error box and \<^verbatim>\<open>SDL_Quit\<close>, without entering the loop.
  When the start-up succeeds and the loop ends, \<^verbatim>\<open>main\<close> returns 0 with
  \<^verbatim>\<open>programRunning\<close> false, after freeing the loaded file (if any) and the frame buffer
  and calling \<^verbatim>\<open>SDL_Quit\<close>.
\<close>

theorem exit_code_zero:
  "(\<forall>rc s'. main_prog X P ts s = Inr (rc, s') \<longrightarrow> rc = 0) \<and>
   (\<not> (init_rc P = 0 \<and> window_ok P \<and> renderer_ok P \<and> texture_ok P \<and> malloc_ok P) \<longrightarrow>
      (\<exists>e pre. main_prog X P ts s =
         Inr (0, s\<lparr>trace := trace s @ pre @
                      [Call (SDL_ShowSimpleMessageBox e), Call SDL_Quit]\<rparr>))) \<and>
   (\<forall>s1 s2. setupVideo X P s = Inr (True, s1) \<and> frameLoop X ts (enterLoop X s1) = Inr s2 \<longrightarrow>
      main_prog X P ts s = Inr (0, shutdown s2) \<and> \<not> programRunning (shutdown s2) \<and>
      trace (shutdown s2) =
        trace s2 @ (if loadedFile s2 \<noteq> None then [Call FreeLoadedFile] else []) @
          [Call FreeFrameBuffer, Call SDL_Quit])"
proof (intro conjI allI impI)
  fix rc s' assume "main_prog X P ts s = Inr (rc, s')"
  then show "rc = 0" by (rule main_prog_exit_code)
next
  assume "\<not> (init_rc P = 0 \<and> window_ok P \<and> renderer_ok P \<and> texture_ok P \<and> malloc_ok P)"
  then show "\<exists>e pre. main_prog X P ts s =
         Inr (0, s\<lparr>trace := trace s @ pre @
                      [Call (SDL_ShowSimpleMessageBox e), Call SDL_Quit]\<rparr>)"
    by (rule main_prog_setup_failure)
next
  fix s1 s2
  assume a: "setupVideo X P s = Inr (True, s1) \<and> frameLoop X ts (enterLoop X s1) = Inr s2"
  then show "main_prog X P ts s = Inr (0, shutdown s2)" by (simp add: main_prog_normal)
  from a have "frameLoop X ts (enterLoop X s1) = Inr s2" by simp
  then have "\<not> programRunning s2" by (rule frameLoop_stopped)
  then show "\<not> programRunning (shutdown s2)" by (simp add: shutdown_def do_call_def Let_def)
  show "trace (shutdown s2) =
        trace s2 @ (if loadedFile s2 \<noteq> None then [Call FreeLoadedFile] else []) @
          [Call FreeFrameBuffer, Call SDL_Quit]"
    by (rule shutdown_trace)
qed

theorem exit_code_zero_witness:
  "(\<exists>s'. main_prog scenario (scenario_platform\<lparr>malloc_ok := False\<rparr>) []
           (startup False None ()) = Inr (0, s')) \<and>
   (\<exists>s'. main_prog scenario scenario_platform [quit_tick answer_yes]
           (startup False None ()) = Inr (0, s'))"
proof -
  let ?s = "startup False None () :: unit app"
  have "\<not> (init_rc (scenario_platform\<lparr>malloc_ok := False\<rparr>) = 0 \<and>
            window_ok (scenario_platform\<lparr>malloc_ok := False\<rparr>) \<and>
            renderer_ok (scenario_platform\<lparr>malloc_ok := False\<rparr>) \<and>
            texture_ok (scenario_platform\<lparr>malloc_ok := False\<rparr>) \<and>
            malloc_ok (scenario_platform\<lparr>malloc_ok := False\<rparr>))"
    by simp
  with exit_code_zero [of scenario "scenario_platform\<lparr>malloc_ok := False\<rparr>" "[]" ?s]
  have a: "\<exists>s'. main_prog scenario (scenario_platform\<lparr>malloc_ok := False\<rparr>) [] ?s = Inr (0, s')"
    by blast
  have y: "calcScaleMul 64 128 = Some 32768"
    using calcScaleMul_double by (simp add: calcScaleMul_def)
  have "\<exists>s1. setupVideo scenario scenario_platform ?s = Inr (True, s1) \<and>
          xScaleMul s1 = 32768 \<and> yScaleMul s1 = 32768"
    by (rule setupVideo_success)
       (simp_all add: scenario_def scenario_platform_def calcScaleMul_double y)
  then obtain s1 where s1: "setupVideo scenario scenario_platform ?s = Inr (True, s1)"
    by blast
  let ?e = "enterLoop scenario s1"
  have f: "allowSigterm s1" "\<not> configIsSaved s1"
    using setupVideo_globals [OF s1] by (simp_all add: startup_def)
  have "programRunning ?e" "allowSigterm ?e" "\<not> configIsSaved ?e"
    using f by (simp_all add: enterLoop_def step_defs scenario_def)
  moreover have "polled (quit_tick answer_yes) = (SDL_QUIT, answer_yes) # []"
    by (simp add: quit_tick_def)
  ultimately have "frameLoop scenario [quit_tick answer_yes] ?e =
      Inr (loopBody scenario (quit_tick answer_yes) ?e)"
    by (intro quit_unsaved_last_iteration scenario_private)
  with s1 exit_code_zero [of scenario scenario_platform "[quit_tick answer_yes]" ?s]
  have "\<exists>s'. main_prog scenario scenario_platform [quit_tick answer_yes] ?s = Inr (0, s')"
    by blast
  with a show ?thesis by blast
qed

end
